theory Spec2Isabelle
  imports Complex_Main
begin

section \<open>JavaScript values at the interface of the data layer\<close>

text \<open>
  The arguments of the operations of \<^verbatim>\<open>CRCData\<close> (data.js) are dynamically typed. An
  argument or an object field of the expected type \<open>'a\<close> is modelled as \<open>'a js\<close>: the field
  is missing (\<^verbatim>\<open>undefined\<close>), is \<^verbatim>\<open>null\<close>, or holds a value. Strings are byte strings,
  numbers are the finite numbers (\<^verbatim>\<open>NaN\<close> and the infinities, which JSON does not store,
  are outside the model).
\<close>

datatype 'a js = Undefined | Null | Val 'a

text \<open>
  A random token, as \<^verbatim>\<open>Math.random().toString(36).slice(2,9)\<close> draws it, and a timestamp,
  as \<^verbatim>\<open>new Date().toISOString()\<close> gives it.
\<close>

type_synonym token = string

type_synonym timestamp = string

text \<open>Truthiness: \<^verbatim>\<open>undefined\<close>, \<^verbatim>\<open>null\<close>, the empty string and \<open>0\<close> are falsy.\<close>

definition truthy_str :: "string js \<Rightarrow> bool" where
  "truthy_str v = (case v of Val s \<Rightarrow> s \<noteq> [] | _ \<Rightarrow> False)"

definition truthy_num :: "rat js \<Rightarrow> bool" where
  "truthy_num v = (case v of Val n \<Rightarrow> n \<noteq> 0 | _ \<Rightarrow> False)"

text \<open>\<^verbatim>\<open>v || d\<close> with a string or a number as default \<open>d\<close>.\<close>

definition or_str :: "string js \<Rightarrow> string \<Rightarrow> string" where
  "or_str v d = (case v of Val s \<Rightarrow> (if s \<noteq> [] then s else d) | _ \<Rightarrow> d)"

definition or_num :: "rat js \<Rightarrow> rat \<Rightarrow> rat" where
  "or_num v d = (case v of Val n \<Rightarrow> (if n \<noteq> 0 then n else d) | _ \<Rightarrow> d)"

text \<open>\<^verbatim>\<open>v || null\<close>.\<close>

definition or_null :: "string js \<Rightarrow> string js" where
  "or_null v = (if truthy_str v then v else Null)"

text \<open>\<^verbatim>\<open>v ?? d\<close>: only \<^verbatim>\<open>undefined\<close> and \<^verbatim>\<open>null\<close> give the default.\<close>

definition nullish :: "'a js \<Rightarrow> 'a \<Rightarrow> 'a" where
  "nullish v d = (case v of Val x \<Rightarrow> x | _ \<Rightarrow> d)"

text \<open>A default parameter value \<^verbatim>\<open>function f(x = d)\<close>: only \<^verbatim>\<open>undefined\<close> gives the default.\<close>

definition default_param :: "'a js \<Rightarrow> 'a js \<Rightarrow> 'a js" where
  "default_param v d = (case v of Undefined \<Rightarrow> d | _ \<Rightarrow> v)"

text \<open>
  The lowering of the letters A to Z of ASCII; every other character is kept. A string is ASCII
  when all its characters are below 128.
\<close>

definition ascii_lower_char :: "char \<Rightarrow> char" where
  "ascii_lower_char c =
     (let n = (of_char c :: nat) in if 65 \<le> n \<and> n \<le> 90 then char_of (n + 32) else c)"

definition ascii_lower :: "string \<Rightarrow> string" where
  "ascii_lower s = map ascii_lower_char s"

definition ascii :: "string \<Rightarrow> bool" where
  "ascii s = list_all (\<lambda>c. (of_char c :: nat) < 128) s"

text \<open>
  \<^verbatim>\<open>String.prototype.toLowerCase\<close> is a built-in function, and a parameter \<open>L\<close> of every
  operation that calls it. Of the Unicode lower-casing that it computes the model takes two
  facts, which make up the type of \<open>L\<close>: lowering twice is lowering once, and on an ASCII
  string it lowers the letters A to Z and keeps every other character. Nothing is fixed about
  what it does to other strings.
\<close>

typedef lowering =
  "{f :: string \<Rightarrow> string. (\<forall>s. f (f s) = f s) \<and> (\<forall>s. ascii s \<longrightarrow> f s = ascii_lower s)}"
  by (rule exI [where x = ascii_lower])
    (simp add: ascii_lower_def ascii_lower_char_def Let_def)

definition toLowerCase :: "lowering \<Rightarrow> string \<Rightarrow> string" where
  "toLowerCase L s = Rep_lowering L s"

text \<open>
  In-place mutation of the element that \<^verbatim>\<open>Array.prototype.find\<close> returns: the first element
  that satisfies \<open>P\<close> is replaced by its image under \<open>f\<close>, the array is unchanged when there is
  none.
\<close>

fun update_first :: "('a \<Rightarrow> bool) \<Rightarrow> ('a \<Rightarrow> 'a) \<Rightarrow> 'a list \<Rightarrow> 'a list" where
  "update_first P f [] = []"
| "update_first P f (x # xs) = (if P x then f x # xs else x # update_first P f xs)"


section \<open>Data model\<close>

record user =
  u_id :: string
  u_email :: string
  u_name :: "string js"
  u_role :: "string js"
  u_createdAt :: string

record lead =
  l_id :: string
  l_referrerId :: "string js"
  l_email :: string
  l_notes :: "string js"
  l_status :: string
  l_createdAt :: string
  l_convertedProjectId :: "string js"

record stage =
  s_key :: string
  s_label :: string
  s_done :: bool

record project =
  p_id :: string
  p_customerId :: string
  p_createdAt :: string
  p_location :: string
  p_plot :: rat
  p_budget :: rat
  p_materials :: string
  p_timeline :: rat
  p_status :: string
  p_verified :: bool
  p_assignedContractor :: "string js"
  p_referrerId :: "string js"
  p_commissionPercent :: rat
  p_stages :: "stage list"

text \<open>The \<^verbatim>\<open>payload\<close> argument of \<^verbatim>\<open>addProject\<close>: every field may be missing.\<close>

record payload =
  pl_location :: "string js"
  pl_plot :: "rat js"
  pl_budget :: "rat js"
  pl_materials :: "string js"
  pl_timeline :: "rat js"
  pl_referrerId :: "string js"
  pl_commissionPercent :: "rat js"

text \<open>
  The \<^verbatim>\<open>changes\<close> argument of \<^verbatim>\<open>updateProject\<close>: an object with any subset of the fields
  of a project (\<open>None\<close>: the key is not in the object), each of the type the project has.
\<close>

record changes =
  c_id :: "string option"
  c_customerId :: "string option"
  c_createdAt :: "string option"
  c_location :: "string option"
  c_plot :: "rat option"
  c_budget :: "rat option"
  c_materials :: "string option"
  c_timeline :: "rat option"
  c_status :: "string option"
  c_verified :: "bool option"
  c_assignedContractor :: "string js option"
  c_referrerId :: "string js option"
  c_commissionPercent :: "rat option"
  c_stages :: "stage list option"

record defaults_rec =
  defaultCommission :: rat

text \<open>The keys \<^verbatim>\<open>KEYS\<close> of the collections in \<^verbatim>\<open>localStorage\<close>.\<close>

datatype key = KEYS_users | KEYS_projects | KEYS_leads | KEYS_defaults

text \<open>
  The messages posted on the broadcast channel \<^verbatim>\<open>BC\<close>. The timestamp \<^verbatim>\<open>ts\<close> of a
  \<^verbatim>\<open>sync\<close> message is left out.
\<close>

datatype message = Sync key | Auth "string js" | Auth_logout | Cleared

text \<open>
  The state of a tab: the four collections of \<^verbatim>\<open>localStorage\<close> as \<^verbatim>\<open>read\<close> returns them
  (a removed list collection reads as its fallback \<^verbatim>\<open>[]\<close>; \<open>defaults = None\<close> is a removed
  defaults record), the session of \<^verbatim>\<open>sessionStorage\<close>, and the messages posted so far,
  oldest first.
\<close>

record store =
  users :: "user list"
  projects :: "project list"
  leads :: "lead list"
  defaults :: "defaults_rec option"
  session :: "user option"
  posted :: "message list"

text \<open>
  The error results \<^verbatim>\<open>{ error: ... }\<close>, named by their messages:
  \<^verbatim>\<open>'Name and email required'\<close>, \<^verbatim>\<open>'Email already registered'\<close>,
  \<^verbatim>\<open>'User not found. Register first.'\<close> and \<^verbatim>\<open>'Lead not found'\<close>.
\<close>

datatype error =
    Name_and_email_required
  | Email_already_registered
  | User_not_found
  | Lead_not_found


section \<open>Storage and session helpers\<close>

text \<open>\<^verbatim>\<open>write(k, v)\<close> replaces the collection and posts a \<^verbatim>\<open>sync\<close> message.\<close>

definition write_users :: "user list \<Rightarrow> store \<Rightarrow> store" where
  "write_users v st = st\<lparr>users := v, posted := posted st @ [Sync KEYS_users]\<rparr>"

definition write_projects :: "project list \<Rightarrow> store \<Rightarrow> store" where
  "write_projects v st = st\<lparr>projects := v, posted := posted st @ [Sync KEYS_projects]\<rparr>"

definition write_leads :: "lead list \<Rightarrow> store \<Rightarrow> store" where
  "write_leads v st = st\<lparr>leads := v, posted := posted st @ [Sync KEYS_leads]\<rparr>"

definition writeDefaults :: "defaults_rec \<Rightarrow> store \<Rightarrow> store" where
  "writeDefaults obj st = st\<lparr>defaults := Some obj, posted := posted st @ [Sync KEYS_defaults]\<rparr>"

text \<open>\<^verbatim>\<open>readObj(KEYS.defaults, { defaultCommission: 6 })\<close>.\<close>

definition readObj_defaults :: "store \<Rightarrow> defaults_rec" where
  "readObj_defaults st =
     (case defaults st of None \<Rightarrow> \<lparr>defaultCommission = 6\<rparr> | Some d \<Rightarrow> d)"

text \<open>
  \<^verbatim>\<open>uid(prefix)\<close>: the prefix followed by a random token; the token drawn from
  \<^verbatim>\<open>Math.random()\<close> is the argument \<open>r\<close>. In the same way the result of each call of
  \<^verbatim>\<open>now()\<close> is an argument \<open>t\<close> of the operation that makes the call.
\<close>

definition uid :: "string \<Rightarrow> token \<Rightarrow> string" where
  "uid prefix r = prefix @ r"

text \<open>\<^verbatim>\<open>setSession(user)\<close> posts \<^verbatim>\<open>{ type:'auth', userId: user?.id ?? null }\<close>.\<close>

definition setSession :: "user option \<Rightarrow> store \<Rightarrow> store" where
  "setSession u st =
     st\<lparr>session := u,
        posted := posted st @ [Auth (case u of None \<Rightarrow> Null | Some x \<Rightarrow> Val (u_id x))]\<rparr>"

definition getSession :: "store \<Rightarrow> user option" where
  "getSession st = session st"

definition clearSession :: "store \<Rightarrow> store" where
  "clearSession st = st\<lparr>session := None, posted := posted st @ [Auth_logout]\<rparr>"

definition clearAll :: "store \<Rightarrow> store" where
  "clearAll st =
     st\<lparr>users := [], projects := [], leads := [], defaults := None, session := None,
        posted := posted st @ [Cleared]\<rparr>"

text \<open>
  The store of a fresh browser once data.js is loaded: no defaults record is stored, so
  \<^verbatim>\<open>{ defaultCommission: 6 }\<close> is written.
\<close>

definition init_store :: store where
  "init_store =
     \<lparr>users = [], projects = [], leads = [],
      defaults = Some \<lparr>defaultCommission = 6\<rparr>, session = None,
      posted = [Sync KEYS_defaults]\<rparr>"


section \<open>CRUD operations\<close>

definition registerUser ::
  "lowering \<Rightarrow> token \<Rightarrow> timestamp \<Rightarrow> string js \<Rightarrow> string js \<Rightarrow> string js \<Rightarrow> store \<Rightarrow> store \<times> (error + user)"
where
  "registerUser L r t email name role st =
     (if \<not> truthy_str email \<or> \<not> truthy_str name then (st, Inl Name_and_email_required)
      else if list_ex (\<lambda>u. toLowerCase L (u_email u) = toLowerCase L (or_str email [])) (users st)
        then (st, Inl Email_already_registered)
      else
        let u = \<lparr>u_id = uid ''u_'' r, u_email = toLowerCase L (or_str email []), u_name = name,
                 u_role = role, u_createdAt = t\<rparr>
        in (write_users (users st @ [u]) st, Inr u))"

definition loginUser :: "lowering \<Rightarrow> string js \<Rightarrow> store \<Rightarrow> store \<times> (error + user)" where
  "loginUser L email st =
     (case find (\<lambda>x. toLowerCase L (u_email x) = toLowerCase L (or_str email [])) (users st) of
        None \<Rightarrow> (st, Inl User_not_found)
      | Some u \<Rightarrow> (setSession (Some u) st, Inr u))"

definition registerOrGetUserByEmail ::
  "lowering \<Rightarrow> token \<Rightarrow> timestamp \<Rightarrow> string js \<Rightarrow> string js \<Rightarrow> string js \<Rightarrow> store \<Rightarrow> store \<times> user"
where
  "registerOrGetUserByEmail L r t email name role st =
     (case find (\<lambda>x. toLowerCase L (u_email x) = toLowerCase L (or_str email [])) (users st) of
        Some u \<Rightarrow> (st, u)
      | None \<Rightarrow>
          let u = \<lparr>u_id = uid ''u_'' r, u_email = toLowerCase L (or_str email []),
                   u_name = default_param name (Val ''Unknown''),
                   u_role = default_param role (Val ''customer''), u_createdAt = t\<rparr>
          in (write_users (users st @ [u]) st, u))"

definition addLead ::
  "lowering \<Rightarrow> token \<Rightarrow> timestamp \<Rightarrow> string js \<Rightarrow> string js \<Rightarrow> string js \<Rightarrow> store \<Rightarrow> store \<times> lead"
where
  "addLead L r t referrerId email notes st =
     (let lead = \<lparr>l_id = uid ''l_'' r, l_referrerId = referrerId,
                   l_email = toLowerCase L (or_str email []), l_notes = notes, l_status = ''new'',
                   l_createdAt = t, l_convertedProjectId = Null\<rparr>
      in (write_leads (lead # leads st) st, lead))"

definition initial_stages :: "stage list" where
  "initial_stages =
     [\<lparr>s_key = ''foundation'', s_label = ''Foundation'', s_done = False\<rparr>,
      \<lparr>s_key = ''framing'', s_label = ''Framing'', s_done = False\<rparr>,
      \<lparr>s_key = ''roof'', s_label = ''Roof'', s_done = False\<rparr>,
      \<lparr>s_key = ''finishing'', s_label = ''Finishing'', s_done = False\<rparr>]"

text \<open>The default location is an em dash, U+2014, here in UTF-8.\<close>

definition em_dash :: string where
  "em_dash = [CHR 0xE2, CHR 0x80, CHR 0x94]"

text \<open>
  \<^verbatim>\<open>Number(payload.commissionPercent ?? defaults.defaultCommission)\<close>: both are numbers
  here, on which \<^verbatim>\<open>Number\<close> is the identity.
\<close>

definition addProject ::
  "token \<Rightarrow> timestamp \<Rightarrow> string \<Rightarrow> payload \<Rightarrow> store \<Rightarrow> store \<times> project"
where
  "addProject r t customerId payload st =
     (let dflts = readObj_defaults st;
          p = \<lparr>p_id = uid ''p_'' r,
               p_customerId = customerId,
               p_createdAt = t,
               p_location = or_str (pl_location payload) em_dash,
               p_plot = or_num (pl_plot payload) 0,
               p_budget = or_num (pl_budget payload) 0,
               p_materials = or_str (pl_materials payload) ''Standard'',
               p_timeline = or_num (pl_timeline payload) 12,
               p_status = ''pending'',
               p_verified = False,
               p_assignedContractor = Null,
               p_referrerId = or_null (pl_referrerId payload),
               p_commissionPercent =
                 nullish (pl_commissionPercent payload) (defaultCommission dflts),
               p_stages = initial_stages\<rparr>
      in (write_projects (p # projects st) st, p))"

text \<open>\<^verbatim>\<open>Object.assign(p, changes)\<close>: every key of \<open>changes\<close> overwrites the field of \<open>p\<close>.\<close>

definition assign :: "project \<Rightarrow> changes \<Rightarrow> project" where
  "assign p c =
     \<lparr>p_id = (case c_id c of None \<Rightarrow> p_id p | Some v \<Rightarrow> v),
      p_customerId = (case c_customerId c of None \<Rightarrow> p_customerId p | Some v \<Rightarrow> v),
      p_createdAt = (case c_createdAt c of None \<Rightarrow> p_createdAt p | Some v \<Rightarrow> v),
      p_location = (case c_location c of None \<Rightarrow> p_location p | Some v \<Rightarrow> v),
      p_plot = (case c_plot c of None \<Rightarrow> p_plot p | Some v \<Rightarrow> v),
      p_budget = (case c_budget c of None \<Rightarrow> p_budget p | Some v \<Rightarrow> v),
      p_materials = (case c_materials c of None \<Rightarrow> p_materials p | Some v \<Rightarrow> v),
      p_timeline = (case c_timeline c of None \<Rightarrow> p_timeline p | Some v \<Rightarrow> v),
      p_status = (case c_status c of None \<Rightarrow> p_status p | Some v \<Rightarrow> v),
      p_verified = (case c_verified c of None \<Rightarrow> p_verified p | Some v \<Rightarrow> v),
      p_assignedContractor =
        (case c_assignedContractor c of None \<Rightarrow> p_assignedContractor p | Some v \<Rightarrow> v),
      p_referrerId = (case c_referrerId c of None \<Rightarrow> p_referrerId p | Some v \<Rightarrow> v),
      p_commissionPercent =
        (case c_commissionPercent c of None \<Rightarrow> p_commissionPercent p | Some v \<Rightarrow> v),
      p_stages = (case c_stages c of None \<Rightarrow> p_stages p | Some v \<Rightarrow> v)\<rparr>"

text \<open>
  The completion rule of both \<^verbatim>\<open>updateProject\<close> and \<^verbatim>\<open>toggleStage\<close>:
  \<^verbatim>\<open>if (p.stages.every(s => s.done)) p.status = 'completed'\<close>.
\<close>

definition complete_if_all_done :: "project \<Rightarrow> project" where
  "complete_if_all_done p =
     (if list_all s_done (p_stages p) then p\<lparr>p_status := ''completed''\<rparr> else p)"

text \<open>
  The guard \<^verbatim>\<open>p.stages &&\<close> of \<^verbatim>\<open>updateProject\<close> is true of every array. The result
  \<open>None\<close> is the \<^verbatim>\<open>null\<close> that is returned for a missing project.
\<close>

definition updateProject :: "string \<Rightarrow> changes \<Rightarrow> store \<Rightarrow> store \<times> project option" where
  "updateProject projectId chg st =
     (case find (\<lambda>x. p_id x = projectId) (projects st) of
        None \<Rightarrow> (st, None)
      | Some p \<Rightarrow>
          let p' = complete_if_all_done (assign p chg)
          in (write_projects (update_first (\<lambda>x. p_id x = projectId) (\<lambda>_. p') (projects st)) st,
              Some p'))"

text \<open>\<^verbatim>\<open>const s = p.stages.find(st => st.key === stageKey); if (s) s.done = !s.done;\<close>\<close>

definition flip_stage :: "string \<Rightarrow> project \<Rightarrow> project" where
  "flip_stage stageKey p =
     p\<lparr>p_stages :=
         update_first (\<lambda>s. s_key s = stageKey) (\<lambda>s. s\<lparr>s_done := \<not> s_done s\<rparr>) (p_stages p)\<rparr>"

definition toggleStage :: "string \<Rightarrow> string \<Rightarrow> store \<Rightarrow> store \<times> project option" where
  "toggleStage projectId stageKey st =
     (case find (\<lambda>x. p_id x = projectId) (projects st) of
        None \<Rightarrow> (st, None)
      | Some p \<Rightarrow>
          let p' = complete_if_all_done (flip_stage stageKey p)
          in (write_projects (update_first (\<lambda>x. p_id x = projectId) (\<lambda>_. p') (projects st)) st,
              Some p'))"

text \<open>
  \<^verbatim>\<open>convertLeadToProject\<close> draws at most two ids and two timestamps: \<open>ru\<close>, \<open>tu\<close> for a
  customer that has to be created, \<open>rp\<close>, \<open>tp\<close> for the project. The leads are those read at
  the start of the call.
\<close>

definition convertLeadToProject ::
  "lowering \<Rightarrow> token \<Rightarrow> timestamp \<Rightarrow> token \<Rightarrow> timestamp \<Rightarrow> string \<Rightarrow> string js \<Rightarrow> rat js \<Rightarrow> store
     \<Rightarrow> store \<times> (error + project)"
where
  "convertLeadToProject L ru tu rp tp leadId customerName budget st =
     (case find (\<lambda>l. l_id l = leadId) (leads st) of
        None \<Rightarrow> (st, Inl Lead_not_found)
      | Some lead \<Rightarrow>
          let (st1, cust) =
                registerOrGetUserByEmail L ru tu (Val (l_email lead)) customerName
                  (Val ''customer'') st;
              (st2, project) =
                addProject rp tp (u_id cust)
                  \<lparr>pl_location = Val ''(from lead)'', pl_plot = Undefined, pl_budget = budget,
                   pl_materials = Val ''TBD'', pl_timeline = Val 12,
                   pl_referrerId = l_referrerId lead, pl_commissionPercent = Undefined\<rparr> st1;
              leads' =
                update_first (\<lambda>l. l_id l = leadId)
                  (\<lambda>l. l\<lparr>l_status := ''converted'', l_convertedProjectId := Val (p_id project)\<rparr>)
                  (leads st)
          in (write_leads leads' st2, Inr project))"

text \<open>
  \<^verbatim>\<open>seedDemo\<close> draws five ids and five timestamps, in the order users 1 to 3, lead, project.
\<close>

definition seedDemo ::
  "token \<Rightarrow> timestamp \<Rightarrow> token \<Rightarrow> timestamp \<Rightarrow> token \<Rightarrow> timestamp \<Rightarrow> token \<Rightarrow> timestamp
     \<Rightarrow> token \<Rightarrow> timestamp \<Rightarrow> store \<Rightarrow> store"
where
  "seedDemo r1 t1 r2 t2 r3 t3 r4 t4 r5 t5 st =
     (if users st \<noteq> [] then st
      else
        let u1 = \<lparr>u_id = uid ''u_'' r1, u_email = ''alice@ref.com'',
                  u_name = Val ''Alice Referrer'', u_role = Val ''referrer'', u_createdAt = t1\<rparr>;
            u2 = \<lparr>u_id = uid ''u_'' r2, u_email = ''bob@admin.com'',
                  u_name = Val ''Bob Admin'', u_role = Val ''admin'', u_createdAt = t2\<rparr>;
            u3 = \<lparr>u_id = uid ''u_'' r3, u_email = ''carl@cust.com'',
                  u_name = Val ''Carl Customer'', u_role = Val ''customer'', u_createdAt = t3\<rparr>;
            st1 = write_users [u1, u2, u3] st;
            st2 = write_leads
                    [\<lparr>l_id = uid ''l_'' r4, l_referrerId = Val (u_id u1),
                      l_email = ''lead1@example.com'', l_notes = Val ''Interested in 3BHK'',
                      l_status = ''new'', l_createdAt = t4, l_convertedProjectId = Null\<rparr>] st1
        in write_projects
             [\<lparr>p_id = uid ''p_'' r5,
               p_customerId = u_id u3,
               p_createdAt = t5,
               p_location = ''Greenhill Estate'',
               p_plot = 120,
               p_budget = 42000,
               p_materials = ''Premium'',
               p_timeline = 16,
               p_status = ''pending'',
               p_verified = False,
               p_assignedContractor = Null,
               p_referrerId = Val (u_id u1),
               p_commissionPercent = 7,
               p_stages =
                 [\<lparr>s_key = ''foundation'', s_label = ''Foundation'', s_done = True\<rparr>,
                  \<lparr>s_key = ''framing'', s_label = ''Framing'', s_done = False\<rparr>,
                  \<lparr>s_key = ''roof'', s_label = ''Roof'', s_done = False\<rparr>,
                  \<lparr>s_key = ''finishing'', s_label = ''Finishing'', s_done = False\<rparr>]\<rparr>] st2)"


section \<open>Sequences of calls\<close>

text \<open>
  A call of one of the operations that \<^verbatim>\<open>CRCData\<close> exposes to change the store, with its
  arguments and the ids and timestamps it draws. The raw accessor \<^verbatim>\<open>write\<close> is not among
  them.
\<close>

datatype call =
    RegisterUser token timestamp "string js" "string js" "string js"
  | LoginUser "string js"
  | RegisterOrGetUserByEmail token timestamp "string js" "string js" "string js"
  | AddLead token timestamp "string js" "string js" "string js"
  | AddProject token timestamp string payload
  | UpdateProject string changes
  | ToggleStage string string
  | ConvertLeadToProject token timestamp token timestamp string "string js" "rat js"
  | WriteDefaults defaults_rec
  | SetSession "user option"
  | ClearSession
  | ClearAll
  | SeedDemo token timestamp token timestamp token timestamp token timestamp token timestamp

fun step :: "lowering \<Rightarrow> call \<Rightarrow> store \<Rightarrow> store" where
  "step L (RegisterUser r t email name role) st = fst (registerUser L r t email name role st)"
| "step L (LoginUser email) st = fst (loginUser L email st)"
| "step L (RegisterOrGetUserByEmail r t email name role) st =
     fst (registerOrGetUserByEmail L r t email name role st)"
| "step L (AddLead r t referrerId email notes) st = fst (addLead L r t referrerId email notes st)"
| "step L (AddProject r t customerId payload) st = fst (addProject r t customerId payload st)"
| "step L (UpdateProject projectId chg) st = fst (updateProject projectId chg st)"
| "step L (ToggleStage projectId stageKey) st = fst (toggleStage projectId stageKey st)"
| "step L (ConvertLeadToProject ru tu rp tp leadId customerName budget) st =
     fst (convertLeadToProject L ru tu rp tp leadId customerName budget st)"
| "step L (WriteDefaults obj) st = writeDefaults obj st"
| "step L (SetSession u) st = setSession u st"
| "step L (ClearSession) st = clearSession st"
| "step L (ClearAll) st = clearAll st"
| "step L (SeedDemo r1 t1 r2 t2 r3 t3 r4 t4 r5 t5) st = seedDemo r1 t1 r2 t2 r3 t3 r4 t4 r5 t5 st"

text \<open>The store after a sequence of calls, made one after the other from \<open>st\<close>.\<close>

definition run :: "lowering \<Rightarrow> call list \<Rightarrow> store \<Rightarrow> store" where
  "run L cs st = fold (step L) cs st"


section \<open>The storage layer\<close>

text \<open>
  \<^verbatim>\<open>read(k, fallback)\<close> is
  \<^verbatim>\<open>try { return JSON.parse(localStorage.getItem(k) || JSON.stringify(fallback)); }
  catch(e){ return fallback; }\<close>.
  The built-in functions are parameters: \<open>JSON_parse\<close> returns a value of the type \<open>'v\<close> of
  JSON values or throws, \<open>JSON_stringify\<close> returns a string or \<^verbatim>\<open>undefined\<close>, or throws.
  \<open>localStorage\<close> maps a key to the text stored under it. A result \<open>Inl e\<close> of \<open>read\<close> is an
  exception that leaves \<^verbatim>\<open>read\<close>. A call without fallback is the call with the fallback
  \<^verbatim>\<open>[]\<close>.
\<close>

datatype exn = SyntaxError | TypeError

text \<open>\<^verbatim>\<open>JSON.parse\<close> converts its argument to a string first.\<close>

definition ToString :: "string js \<Rightarrow> string" where
  "ToString x = (case x of Val s \<Rightarrow> s | Undefined \<Rightarrow> ''undefined'' | Null \<Rightarrow> ''null'')"

definition read_try ::
  "(string \<Rightarrow> exn + 'v) \<Rightarrow> ('v \<Rightarrow> exn + string js) \<Rightarrow> (string \<Rightarrow> string option) \<Rightarrow> string \<Rightarrow> 'v
     \<Rightarrow> exn + 'v"
where
  "read_try JSON_parse JSON_stringify localStorage k fallback =
     (case (case localStorage k of
              Some s \<Rightarrow> if s \<noteq> [] then Inr (Val s) else JSON_stringify fallback
            | None \<Rightarrow> JSON_stringify fallback) of
        Inl e \<Rightarrow> Inl e
      | Inr x \<Rightarrow> JSON_parse (ToString x))"

definition read ::
  "(string \<Rightarrow> exn + 'v) \<Rightarrow> ('v \<Rightarrow> exn + string js) \<Rightarrow> (string \<Rightarrow> string option) \<Rightarrow> string \<Rightarrow> 'v
     \<Rightarrow> exn + 'v"
where
  "read JSON_parse JSON_stringify localStorage k fallback =
     (case read_try JSON_parse JSON_stringify localStorage k fallback of
        Inl e \<Rightarrow> Inr fallback
      | Inr v \<Rightarrow> Inr v)"


section \<open>The completion rule as a property of the store\<close>

text \<open>Every project all of whose stages are done has the status \<^verbatim>\<open>'completed'\<close>.\<close>

definition completion_ok :: "store \<Rightarrow> bool" where
  "completion_ok st =
     (\<forall>p \<in> set (projects st). list_all s_done (p_stages p) \<longrightarrow> p_status p = ''completed'')"


section \<open>Example stores\<close>

text \<open>
  The lowering of the examples, whose strings are all ASCII: it lowers the letters A to Z of
  every string.
\<close>

definition ascii_lowering :: lowering where
  "ascii_lowering = Abs_lowering ascii_lower"

text \<open>The store of a fresh browser after \<^verbatim>\<open>seedDemo()\<close>.\<close>

definition seeded_store :: store where
  "seeded_store =
     seedDemo ''a1a1a1a'' ''2024-05-01T10:00:00.000Z'' ''b2b2b2b'' ''2024-05-01T10:00:00.000Z''
       ''c3c3c3c'' ''2024-05-01T10:00:00.000Z'' ''d4d4d4d'' ''2024-05-01T10:00:00.001Z''
       ''e5e5e5e'' ''2024-05-01T10:00:00.001Z'' init_store"

definition demo_stages :: "bool \<Rightarrow> bool \<Rightarrow> bool \<Rightarrow> bool \<Rightarrow> stage list" where
  "demo_stages a b c d =
     [\<lparr>s_key = ''foundation'', s_label = ''Foundation'', s_done = a\<rparr>,
      \<lparr>s_key = ''framing'', s_label = ''Framing'', s_done = b\<rparr>,
      \<lparr>s_key = ''roof'', s_label = ''Roof'', s_done = c\<rparr>,
      \<lparr>s_key = ''finishing'', s_label = ''Finishing'', s_done = d\<rparr>]"

definition seeded_project :: project where
  "seeded_project =
     \<lparr>p_id = ''p_e5e5e5e'',
      p_customerId = ''u_c3c3c3c'',
      p_createdAt = ''2024-05-01T10:00:00.001Z'',
      p_location = ''Greenhill Estate'',
      p_plot = 120,
      p_budget = 42000,
      p_materials = ''Premium'',
      p_timeline = 16,
      p_status = ''pending'',
      p_verified = False,
      p_assignedContractor = Null,
      p_referrerId = Val ''u_a1a1a1a'',
      p_commissionPercent = 7,
      p_stages = demo_stages True False False False\<rparr>"

definition seed_call :: call where
  "seed_call =
     SeedDemo ''a1a1a1a'' ''2024-05-01T10:00:00.000Z'' ''b2b2b2b'' ''2024-05-01T10:00:00.000Z''
       ''c3c3c3c'' ''2024-05-01T10:00:00.000Z'' ''d4d4d4d'' ''2024-05-01T10:00:00.001Z''
       ''e5e5e5e'' ''2024-05-01T10:00:00.001Z''"

definition finish_calls :: "call list" where
  "finish_calls =
     [seed_call, ToggleStage ''p_e5e5e5e'' ''framing'', ToggleStage ''p_e5e5e5e'' ''roof'',
      ToggleStage ''p_e5e5e5e'' ''finishing'']"

definition reopen_calls :: "call list" where
  "reopen_calls = finish_calls @ [ToggleStage ''p_e5e5e5e'' ''finishing'']"

definition seeded_lead :: lead where
  "seeded_lead =
     \<lparr>l_id = ''l_d4d4d4d'', l_referrerId = Val ''u_a1a1a1a'', l_email = ''lead1@example.com'',
      l_notes = Val ''Interested in 3BHK'', l_status = ''new'',
      l_createdAt = ''2024-05-01T10:00:00.001Z'', l_convertedProjectId = Null\<rparr>"

text \<open>The seeded store after the conversion of the seeded lead.\<close>

definition converted_store :: store where
  "converted_store =
     fst (convertLeadToProject ascii_lowering ''f6f6f6f'' ''2024-05-02T09:00:00.000Z'' ''g7g7g7g''
            ''2024-05-02T09:00:00.001Z'' ''l_d4d4d4d'' (Val ''Lee'') (Val 5000) seeded_store)"

text \<open>A lead without a referrer: \<^verbatim>\<open>addLead('', 'New@Lead.com', 'walk-in')\<close> on the fresh store.\<close>

definition walk_in_store :: store where
  "walk_in_store =
     fst (addLead ascii_lowering ''h8h8h8h'' ''2024-05-03T08:00:00.000Z'' (Val []) (Val ''New@Lead.com'')
            (Val ''walk-in'') init_store)"

definition walk_in_lead :: lead where
  "walk_in_lead =
     \<lparr>l_id = ''l_h8h8h8h'', l_referrerId = Val [], l_email = ''new@lead.com'',
      l_notes = Val ''walk-in'', l_status = ''new'',
      l_createdAt = ''2024-05-03T08:00:00.000Z'', l_convertedProjectId = Null\<rparr>"

definition bare_payload :: payload where
  "bare_payload =
     \<lparr>pl_location = Val ''12 Elm Road'', pl_plot = Undefined, pl_budget = Val 9000,
      pl_materials = Undefined, pl_timeline = Val 12, pl_referrerId = Undefined,
      pl_commissionPercent = Undefined\<rparr>"

definition falsy_payload :: payload where
  "falsy_payload =
     \<lparr>pl_location = Val [], pl_plot = Val 0, pl_budget = Null, pl_materials = Val [],
      pl_timeline = Val 0, pl_referrerId = Undefined, pl_commissionPercent = Val 0\<rparr>"

text \<open>
  Three values and what the built-in functions do with them: \<^verbatim>\<open>JSON.stringify\<close> writes
  \<^verbatim>\<open>[]\<close> as the text \<^verbatim>\<open>[]\<close>, and both \<^verbatim>\<open>{}\<close> and \<^verbatim>\<open>{a: undefined}\<close> as the text \<^verbatim>\<open>{}\<close>, since
  it leaves out a field whose value is \<^verbatim>\<open>undefined\<close>; \<^verbatim>\<open>JSON.parse\<close> reads these two texts
  as \<^verbatim>\<open>[]\<close> and \<^verbatim>\<open>{}\<close>. Of the other texts the examples use only \<^verbatim>\<open>[{oops\<close>, on which
  \<^verbatim>\<open>JSON.parse\<close> throws a \<^verbatim>\<open>SyntaxError\<close>.
\<close>

datatype sample_json = Empty_array | Empty_object | Object_a_undefined

definition sample_stringify :: "sample_json \<Rightarrow> exn + string js" where
  "sample_stringify v = Inr (Val (case v of Empty_array \<Rightarrow> ''[]'' | _ \<Rightarrow> ''{}''))"

definition sample_parse :: "string \<Rightarrow> exn + sample_json" where
  "sample_parse s =
     (if s = ''[]'' then Inr Empty_array
      else if s = ''{}'' then Inr Empty_object
      else Inl SyntaxError)"

text \<open>A store in which the text of the users collection is cut off and no other key is set.\<close>

definition corrupt_storage :: "string \<Rightarrow> string option" where
  "corrupt_storage = [''crc_users_v3'' \<mapsto> ''[{oops'']"


section \<open>Auxiliary facts\<close>

lemma ascii_lower_char_idem: "ascii_lower_char (ascii_lower_char c) = ascii_lower_char c"
  by (simp add: ascii_lower_char_def Let_def)

lemma ascii_lower_idem: "ascii_lower (ascii_lower s) = ascii_lower s"
  by (simp add: ascii_lower_def ascii_lower_char_idem)

lemma ascii_lower_lowering:
  "ascii_lower \<in> {f. (\<forall>s. f (f s) = f s) \<and> (\<forall>s. ascii s \<longrightarrow> f s = ascii_lower s)}"
  by (simp add: ascii_lower_idem)

lemma toLowerCase_idem: "toLowerCase L (toLowerCase L s) = toLowerCase L s"
  using Rep_lowering [of L] by (simp add: toLowerCase_def)

lemma toLowerCase_ascii: "ascii s \<Longrightarrow> toLowerCase L s = ascii_lower s"
  using Rep_lowering [of L] by (simp add: toLowerCase_def)

lemma toLowerCase_ascii_lowering: "toLowerCase ascii_lowering s = ascii_lower s"
  using Abs_lowering_inverse [OF ascii_lower_lowering]
  by (simp add: toLowerCase_def ascii_lowering_def)

lemma find_append_last: "\<not> list_ex P xs \<Longrightarrow> P x \<Longrightarrow> find P (xs @ [x]) = Some x"
  by (induction xs) auto

lemma users_seeded_store:
  "users seeded_store =
     [\<lparr>u_id = ''u_a1a1a1a'', u_email = ''alice@ref.com'', u_name = Val ''Alice Referrer'',
       u_role = Val ''referrer'', u_createdAt = ''2024-05-01T10:00:00.000Z''\<rparr>,
      \<lparr>u_id = ''u_b2b2b2b'', u_email = ''bob@admin.com'', u_name = Val ''Bob Admin'',
       u_role = Val ''admin'', u_createdAt = ''2024-05-01T10:00:00.000Z''\<rparr>,
      \<lparr>u_id = ''u_c3c3c3c'', u_email = ''carl@cust.com'', u_name = Val ''Carl Customer'',
       u_role = Val ''customer'', u_createdAt = ''2024-05-01T10:00:00.000Z''\<rparr>]"
  by (simp add: seeded_store_def seedDemo_def init_store_def write_users_def write_leads_def
      write_projects_def uid_def Let_def)

section \<open>Registration and login\<close>

text \<open>
  Claim C3. \<^verbatim>\<open>registerUser\<close> returns the error \<^verbatim>\<open>'Name and email required'\<close> and leaves the
  store as it is when the email or the name is missing (falsy). With both present it returns
  the error \<^verbatim>\<open>'Email already registered'\<close> and leaves the store as it is when a stored user
  has an email with the same lower-casing as the given one; for ASCII emails that is: when the
  two differ at most in the case of their letters. Otherwise it appends exactly one new user,
  with the lower-cased email, to the users collection, changes nothing else but the posted
  messages, and returns that user; for ASCII emails that is: when every stored email differs
  from the given one in more than the case of its letters.
\<close>

theorem registerUser_results:
  "(\<not> truthy_str email \<or> \<not> truthy_str name \<longrightarrow>
      registerUser L r t email name role st = (st, Inl Name_and_email_required)) \<and>
   (truthy_str email \<and> truthy_str name \<and>
    (\<exists>u \<in> set (users st). toLowerCase L (u_email u) = toLowerCase L (or_str email [])) \<longrightarrow>
      registerUser L r t email name role st = (st, Inl Email_already_registered)) \<and>
   (truthy_str email \<and> truthy_str name \<and>
    (\<exists>u \<in> set (users st). ascii (u_email u) \<and> ascii (or_str email []) \<and>
        ascii_lower (u_email u) = ascii_lower (or_str email [])) \<longrightarrow>
      registerUser L r t email name role st = (st, Inl Email_already_registered)) \<and>
   (truthy_str email \<and> truthy_str name \<and>
    \<not> (\<exists>u \<in> set (users st). toLowerCase L (u_email u) = toLowerCase L (or_str email [])) \<longrightarrow>
      (\<exists>u st'. registerUser L r t email name role st = (st', Inr u) \<and>
         users st' = users st @ [u] \<and>
         u_id u = ''u_'' @ r \<and> u_email u = toLowerCase L (or_str email []) \<and>
         u_name u = name \<and> u_role u = role \<and> u_createdAt u = t \<and>
         projects st' = projects st \<and> leads st' = leads st \<and> defaults st' = defaults st \<and>
         session st' = session st \<and> posted st' = posted st @ [Sync KEYS_users])) \<and>
   (truthy_str email \<and> truthy_str name \<and> ascii (or_str email []) \<and>
    (\<forall>u \<in> set (users st). ascii (u_email u) \<and>
        ascii_lower (u_email u) \<noteq> ascii_lower (or_str email [])) \<longrightarrow>
      (\<exists>u st'. registerUser L r t email name role st = (st', Inr u) \<and>
         users st' = users st @ [u] \<and>
         u_id u = ''u_'' @ r \<and> u_email u = ascii_lower (or_str email []) \<and>
         u_name u = name \<and> u_role u = role \<and> u_createdAt u = t \<and>
         projects st' = projects st \<and> leads st' = leads st \<and> defaults st' = defaults st \<and>
         session st' = session st \<and> posted st' = posted st @ [Sync KEYS_users]))"
proof -
  let ?e = "or_str email []"
  let ?dup = "\<exists>u \<in> set (users st). toLowerCase L (u_email u) = toLowerCase L ?e"
  have missing: "\<not> truthy_str email \<or> \<not> truthy_str name \<longrightarrow>
      registerUser L r t email name role st = (st, Inl Name_and_email_required)"
    by (simp add: registerUser_def)
  have conflict: "truthy_str email \<and> truthy_str name \<and> ?dup \<longrightarrow>
      registerUser L r t email name role st = (st, Inl Email_already_registered)"
    by (auto simp add: registerUser_def list_ex_iff)
  have fresh: "truthy_str email \<and> truthy_str name \<and> \<not> ?dup \<longrightarrow>
      (\<exists>u st'. registerUser L r t email name role st = (st', Inr u) \<and>
         users st' = users st @ [u] \<and>
         u_id u = ''u_'' @ r \<and> u_email u = toLowerCase L ?e \<and>
         u_name u = name \<and> u_role u = role \<and> u_createdAt u = t \<and>
         projects st' = projects st \<and> leads st' = leads st \<and> defaults st' = defaults st \<and>
         session st' = session st \<and> posted st' = posted st @ [Sync KEYS_users])"
    by (auto simp add: registerUser_def list_ex_iff write_users_def uid_def Let_def)
  have ascii_dup:
    "(\<exists>u \<in> set (users st). ascii (u_email u) \<and> ascii ?e \<and>
        ascii_lower (u_email u) = ascii_lower ?e) \<longrightarrow> ?dup"
    by (metis toLowerCase_ascii)
  have ascii_fresh:
    "ascii ?e \<and> (\<forall>u \<in> set (users st). ascii (u_email u) \<and>
        ascii_lower (u_email u) \<noteq> ascii_lower ?e) \<longrightarrow>
      \<not> ?dup \<and> toLowerCase L ?e = ascii_lower ?e"
    by (metis toLowerCase_ascii)
  from missing conflict fresh ascii_dup ascii_fresh show ?thesis
    by (intro conjI) metis+
qed

lemma ascii_examples:
  "ascii ''ALICE@Ref.com''" "ascii ''alice@ref.com''" "ascii ''bob@admin.com''"
  "ascii ''carl@cust.com''" "ascii ''Dana@X.com''"
  by code_simp+

lemma ascii_lower_examples:
  "ascii_lower ''ALICE@Ref.com'' = ''alice@ref.com''"
  "ascii_lower ''alice@ref.com'' = ''alice@ref.com''"
  "ascii_lower ''bob@admin.com'' = ''bob@admin.com''"
  "ascii_lower ''carl@cust.com'' = ''carl@cust.com''"
  "ascii_lower ''Dana@X.com'' = ''dana@x.com''"
  by code_simp+

lemma toLowerCase_examples:
  "toLowerCase ascii_lowering ''ALICE@Ref.com'' = ''alice@ref.com''"
  "toLowerCase ascii_lowering ''alice@ref.com'' = ''alice@ref.com''"
  "toLowerCase ascii_lowering ''bob@admin.com'' = ''bob@admin.com''"
  "toLowerCase ascii_lowering ''carl@cust.com'' = ''carl@cust.com''"
  "toLowerCase ascii_lowering ''Dana@X.com'' = ''dana@x.com''"
  by (simp_all add: toLowerCase_ascii_lowering ascii_lower_examples)

theorem registerUser_results_witness:
  "(\<not> truthy_str (Val []) \<and>
    registerUser ascii_lowering ''f6f6f6f'' ''2024-05-02T09:00:00.000Z'' (Val []) (Val ''Dana'')
      (Val ''customer'') seeded_store = (seeded_store, Inl Name_and_email_required)) \<and>
   (truthy_str (Val ''ALICE@Ref.com'') \<and> truthy_str (Val ''Alice'') \<and>
    (\<exists>u \<in> set (users seeded_store). ascii (u_email u) \<and>
        ascii (or_str (Val ''ALICE@Ref.com'') []) \<and>
        ascii_lower (u_email u) = ascii_lower (or_str (Val ''ALICE@Ref.com'') [])) \<and>
    registerUser ascii_lowering ''f6f6f6f'' ''2024-05-02T09:00:00.000Z'' (Val ''ALICE@Ref.com'')
      (Val ''Alice'') (Val ''referrer'') seeded_store
      = (seeded_store, Inl Email_already_registered)) \<and>
   (truthy_str (Val ''Dana@X.com'') \<and> truthy_str (Val ''Dana'') \<and>
    ascii (or_str (Val ''Dana@X.com'') []) \<and> users seeded_store \<noteq> [] \<and>
    list_all (\<lambda>u. ascii (u_email u) \<and>
        ascii_lower (u_email u) \<noteq> ascii_lower (or_str (Val ''Dana@X.com'') []))
      (users seeded_store) \<and>
    (\<exists>u st'. registerUser ascii_lowering ''f6f6f6f'' ''2024-05-02T09:00:00.000Z''
         (Val ''Dana@X.com'') (Val ''Dana'') (Val ''customer'') seeded_store = (st', Inr u) \<and>
       users st' = users seeded_store @ [u] \<and> u_id u = ''u_f6f6f6f'' \<and>
       u_email u = ''dana@x.com''))"
proof -
  have a: "\<not> truthy_str (Val [])" by (simp add: truthy_str_def)
  have b: "truthy_str (Val ''ALICE@Ref.com'') \<and> truthy_str (Val ''Alice'') \<and>
    (\<exists>u \<in> set (users seeded_store). ascii (u_email u) \<and>
        ascii (or_str (Val ''ALICE@Ref.com'') []) \<and>
        ascii_lower (u_email u) = ascii_lower (or_str (Val ''ALICE@Ref.com'') []))"
    by (simp add: truthy_str_def users_seeded_store or_str_def ascii_examples
        ascii_lower_examples)
  have c: "truthy_str (Val ''Dana@X.com'') \<and> truthy_str (Val ''Dana'') \<and>
    ascii (or_str (Val ''Dana@X.com'') []) \<and>
    list_all (\<lambda>u. ascii (u_email u) \<and>
        ascii_lower (u_email u) \<noteq> ascii_lower (or_str (Val ''Dana@X.com'') []))
      (users seeded_store)"
    by (simp add: truthy_str_def users_seeded_store or_str_def ascii_examples
        ascii_lower_examples)
  have d: "users seeded_store \<noteq> []" by (simp add: users_seeded_store)
  have r1: "registerUser ascii_lowering ''f6f6f6f'' ''2024-05-02T09:00:00.000Z'' (Val [])
      (Val ''Dana'') (Val ''customer'') seeded_store = (seeded_store, Inl Name_and_email_required)"
    using a registerUser_results [where email = "Val []" and name = "Val ''Dana''"
        and L = ascii_lowering and r = "''f6f6f6f''" and t = "''2024-05-02T09:00:00.000Z''"
        and role = "Val ''customer''" and st = seeded_store]
    by blast
  have r2: "registerUser ascii_lowering ''f6f6f6f'' ''2024-05-02T09:00:00.000Z''
      (Val ''ALICE@Ref.com'') (Val ''Alice'') (Val ''referrer'') seeded_store
      = (seeded_store, Inl Email_already_registered)"
    using b registerUser_results [where email = "Val ''ALICE@Ref.com''" and name = "Val ''Alice''"
        and L = ascii_lowering and r = "''f6f6f6f''" and t = "''2024-05-02T09:00:00.000Z''"
        and role = "Val ''referrer''" and st = seeded_store]
    by blast
  have "\<exists>u st'. registerUser ascii_lowering ''f6f6f6f'' ''2024-05-02T09:00:00.000Z''
         (Val ''Dana@X.com'') (Val ''Dana'') (Val ''customer'') seeded_store = (st', Inr u) \<and>
       users st' = users seeded_store @ [u] \<and> u_id u = ''u_'' @ ''f6f6f6f'' \<and>
       u_email u = ascii_lower (or_str (Val ''Dana@X.com'') [])"
    using c [unfolded list_all_iff]
      registerUser_results [where email = "Val ''Dana@X.com''" and name = "Val ''Dana''"
        and L = ascii_lowering and r = "''f6f6f6f''" and t = "''2024-05-02T09:00:00.000Z''"
        and role = "Val ''customer''" and st = seeded_store]
    by blast
  then have r3: "\<exists>u st'. registerUser ascii_lowering ''f6f6f6f'' ''2024-05-02T09:00:00.000Z''
         (Val ''Dana@X.com'') (Val ''Dana'') (Val ''customer'') seeded_store = (st', Inr u) \<and>
       users st' = users seeded_store @ [u] \<and> u_id u = ''u_f6f6f6f'' \<and>
       u_email u = ''dana@x.com''"
    by (simp add: or_str_def ascii_lower_examples)
  from a b c d r1 r2 r3 show ?thesis by blast
qed

text \<open>
  Claim C4. When \<^verbatim>\<open>registerUser\<close> succeeds and returns the user \<open>u\<close>, a following
  \<^verbatim>\<open>loginUser\<close> with the same email succeeds, returns \<open>u\<close> and sets the session to \<open>u\<close>:
  the id of the user in the session is the id of the registered user.
\<close>

theorem register_then_login:
  assumes "registerUser L r t email name role st = (st1, Inr u)"
  shows "loginUser L email st1 = (setSession (Some u) st1, Inr u) \<and>
         map_option u_id (getSession (fst (loginUser L email st1))) = Some (u_id u)"
proof -
  let ?P = "\<lambda>x. toLowerCase L (u_email x) = toLowerCase L (or_str email [])"
  from assms have ok: "truthy_str email" "truthy_str name" "\<not> list_ex ?P (users st)"
    by (auto simp add: registerUser_def split: if_splits)
  with assms have u: "u_email u = toLowerCase L (or_str email [])" and us: "users st1 = users st @ [u]"
    by (auto simp add: registerUser_def write_users_def Let_def)
  have "?P u" by (simp add: u toLowerCase_idem)
  with ok(3) have "find ?P (users st1) = Some u"
    unfolding us by (rule find_append_last)
  then show ?thesis
    by (simp add: loginUser_def getSession_def setSession_def)
qed

lemma register_dana:
  "registerUser ascii_lowering ''f6f6f6f'' ''2024-05-02T09:00:00.000Z'' (Val ''Dana@X.com'') (Val ''Dana'')
     (Val ''customer'') seeded_store =
   (write_users (users seeded_store @
      [\<lparr>u_id = ''u_f6f6f6f'', u_email = ''dana@x.com'', u_name = Val ''Dana'',
        u_role = Val ''customer'', u_createdAt = ''2024-05-02T09:00:00.000Z''\<rparr>]) seeded_store,
    Inr \<lparr>u_id = ''u_f6f6f6f'', u_email = ''dana@x.com'', u_name = Val ''Dana'',
        u_role = Val ''customer'', u_createdAt = ''2024-05-02T09:00:00.000Z''\<rparr>)"
  by (simp add: registerUser_def truthy_str_def or_str_def users_seeded_store
      toLowerCase_examples uid_def Let_def)

theorem register_then_login_witness:
  "registerUser ascii_lowering ''f6f6f6f'' ''2024-05-02T09:00:00.000Z'' (Val ''Dana@X.com'') (Val ''Dana'')
     (Val ''customer'') seeded_store =
   (write_users (users seeded_store @
      [\<lparr>u_id = ''u_f6f6f6f'', u_email = ''dana@x.com'', u_name = Val ''Dana'',
        u_role = Val ''customer'', u_createdAt = ''2024-05-02T09:00:00.000Z''\<rparr>]) seeded_store,
    Inr \<lparr>u_id = ''u_f6f6f6f'', u_email = ''dana@x.com'', u_name = Val ''Dana'',
        u_role = Val ''customer'', u_createdAt = ''2024-05-02T09:00:00.000Z''\<rparr>) \<and>
   map_option u_id (getSession (fst (loginUser ascii_lowering (Val ''Dana@X.com'')
     (write_users (users seeded_store @
      [\<lparr>u_id = ''u_f6f6f6f'', u_email = ''dana@x.com'', u_name = Val ''Dana'',
        u_role = Val ''customer'', u_createdAt = ''2024-05-02T09:00:00.000Z''\<rparr>]) seeded_store))))
    = Some ''u_f6f6f6f''"
proof -
  have "map_option u_id (getSession (fst (loginUser ascii_lowering (Val ''Dana@X.com'')
     (write_users (users seeded_store @
      [\<lparr>u_id = ''u_f6f6f6f'', u_email = ''dana@x.com'', u_name = Val ''Dana'',
        u_role = Val ''customer'', u_createdAt = ''2024-05-02T09:00:00.000Z''\<rparr>]) seeded_store))))
    = Some (u_id \<lparr>u_id = ''u_f6f6f6f'', u_email = ''dana@x.com'', u_name = Val ''Dana'',
        u_role = Val ''customer'', u_createdAt = ''2024-05-02T09:00:00.000Z''\<rparr>)"
    using register_then_login [OF register_dana] by (rule conjunct2)
  then show ?thesis using register_dana by simp
qed

section \<open>Stages and completion\<close>

lemma update_first_none: "find P xs = None \<Longrightarrow> update_first P f xs = xs"
  by (induction xs) (auto split: if_splits)

lemma update_first_some:
  "find P xs = Some x \<Longrightarrow>
     \<exists>ys zs. xs = ys @ x # zs \<and> (\<forall>y \<in> set ys. \<not> P y) \<and> update_first P f xs = ys @ f x # zs"
proof (induction xs)
  case Nil
  then show ?case by simp
next
  case (Cons a xs)
  show ?case
  proof (cases "P a")
    case True
    with Cons.prems have "a = x" by simp
    with True have "a # xs = [] @ x # xs \<and> (\<forall>y \<in> set []. \<not> P y) \<and>
        update_first P f (a # xs) = [] @ f x # xs" by simp
    then show ?thesis by blast
  next
    case False
    with Cons.prems have "find P xs = Some x" by simp
    from Cons.IH [OF this] obtain ys zs where
      "xs = ys @ x # zs" "\<forall>y \<in> set ys. \<not> P y" "update_first P f xs = ys @ f x # zs" by blast
    with False have "a # xs = (a # ys) @ x # zs \<and> (\<forall>y \<in> set (a # ys). \<not> P y) \<and>
        update_first P f (a # xs) = (a # ys) @ f x # zs" by simp
    then show ?thesis by blast
  qed
qed

lemma find_update_first:
  "find P xs = Some x \<Longrightarrow> P (f x) \<Longrightarrow> find P (update_first P f xs) = Some (f x)"
  by (induction xs) (auto split: if_splits)

lemma update_first_twice:
  "find P xs = Some x \<Longrightarrow> P (f x) \<Longrightarrow>
     update_first P g (update_first P f xs) = update_first P (\<lambda>y. g (f y)) xs"
  by (induction xs) (auto split: if_splits)

lemma update_first_id: "find P xs = Some x \<Longrightarrow> f x = x \<Longrightarrow> update_first P f xs = xs"
  by (induction xs) (auto split: if_splits)

lemma set_update_first:
  "y \<in> set (update_first P f xs) \<Longrightarrow> y \<in> set xs \<or> (\<exists>x \<in> set xs. P x \<and> y = f x)"
  by (induction xs) (auto split: if_splits)

lemma p_stages_complete [simp]: "p_stages (complete_if_all_done p) = p_stages p"
  by (simp add: complete_if_all_done_def)

lemma p_id_complete [simp]: "p_id (complete_if_all_done p) = p_id p"
  by (simp add: complete_if_all_done_def)

lemma p_id_flip_stage [simp]: "p_id (flip_stage k p) = p_id p"
  by (simp add: flip_stage_def)

lemma complete_if_all_done_ok:
  "list_all s_done (p_stages (complete_if_all_done p)) \<Longrightarrow>
     p_status (complete_if_all_done p) = ''completed''"
  by (simp add: complete_if_all_done_def split: if_splits)

lemma projects_registerUser [simp]:
  "projects (fst (registerUser L r t email name role st)) = projects st"
  by (simp add: registerUser_def write_users_def Let_def)

lemma projects_loginUser [simp]: "projects (fst (loginUser L email st)) = projects st"
  by (simp add: loginUser_def setSession_def split: option.splits)

lemma projects_registerOrGet [simp]:
  "projects (fst (registerOrGetUserByEmail L r t email name role st)) = projects st"
  by (simp add: registerOrGetUserByEmail_def write_users_def Let_def split: option.splits)

lemma projects_addLead [simp]: "projects (fst (addLead L r t referrerId email notes st)) = projects st"
  by (simp add: addLead_def write_leads_def Let_def)

lemma projects_addProject:
  "projects (fst (addProject r t customerId payload st)) =
     snd (addProject r t customerId payload st) # projects st"
  by (simp add: addProject_def write_projects_def Let_def)

lemma p_stages_addProject [simp]:
  "p_stages (snd (addProject r t customerId payload st)) = initial_stages"
  by (simp add: addProject_def Let_def)

lemma initial_stages_not_done: "\<not> list_all s_done initial_stages"
  by (simp add: initial_stages_def)

lemma completion_ok_update:
  assumes "completion_ok st"
    and "list_all s_done (p_stages p') \<longrightarrow> p_status p' = ''completed''"
  shows "completion_ok (write_projects (update_first P (\<lambda>_. p') (projects st)) st)"
  using assms by (auto simp add: completion_ok_def write_projects_def dest!: set_update_first)

lemma completion_ok_step: "completion_ok st \<Longrightarrow> completion_ok (step L c st)"
proof (cases c)
  case (UpdateProject projectId chg)
  assume "completion_ok st"
  then show ?thesis
    unfolding UpdateProject
    by (auto simp add: updateProject_def Let_def complete_if_all_done_ok
        intro!: completion_ok_update split: option.splits)
next
  case (ToggleStage projectId stageKey)
  assume "completion_ok st"
  then show ?thesis
    unfolding ToggleStage
    by (auto simp add: toggleStage_def Let_def complete_if_all_done_ok
        intro!: completion_ok_update split: option.splits)
next
  case (ConvertLeadToProject ru tu rp tp leadId customerName budget)
  assume "completion_ok st"
  then show ?thesis
    unfolding ConvertLeadToProject
    by (auto simp add: completion_ok_def convertLeadToProject_def registerOrGetUserByEmail_def
        addProject_def write_projects_def write_leads_def write_users_def Let_def
        initial_stages_def split: option.splits)
next
  case (SeedDemo r1 t1 r2 t2 r3 t3 r4 t4 r5 t5)
  assume "completion_ok st"
  then show ?thesis
    unfolding SeedDemo
    by (simp add: completion_ok_def seedDemo_def write_projects_def write_leads_def
        write_users_def Let_def)
qed (auto simp add: completion_ok_def projects_addProject initial_stages_not_done
    writeDefaults_def setSession_def clearSession_def clearAll_def)

lemma completion_ok_run: "completion_ok st \<Longrightarrow> completion_ok (run L cs st)"
  unfolding run_def by (induction cs arbitrary: st) (simp_all add: completion_ok_step)

lemma completion_ok_init: "completion_ok init_store"
  by (simp add: completion_ok_def init_store_def)

text \<open>
  Claim C1, as amended. In every store that a sequence of calls of the exposed operations
  reaches from the fresh store, every project all of whose stages are done has the status
  \<^verbatim>\<open>'completed'\<close>. (The converse fails: the status stays \<^verbatim>\<open>'completed'\<close> when a stage
  is reopened.)
\<close>

theorem all_done_implies_completed:
  "\<forall>p \<in> set (projects (run L cs init_store)).
     list_all s_done (p_stages p) \<longrightarrow> p_status p = ''completed''"
  using completion_ok_run [OF completion_ok_init, where cs = cs and L = L] by (simp add: completion_ok_def)

lemma projects_seeded_store: "projects seeded_store = [seeded_project]"
  by (simp add: seeded_store_def seedDemo_def init_store_def write_users_def write_leads_def
      write_projects_def uid_def Let_def seeded_project_def demo_stages_def)

lemma p_id_seeded: "p_id seeded_project = ''p_e5e5e5e''"
  by (simp add: seeded_project_def)

lemma step_seed_call: "step ascii_lowering seed_call init_store = seeded_store"
  by (simp add: seed_call_def seeded_store_def)

lemma toggle_single:
  "projects st = [p] \<Longrightarrow> p_id p = projectId \<Longrightarrow>
     projects (step L (ToggleStage projectId stageKey) st) =
       [complete_if_all_done (flip_stage stageKey p)]"
  by (simp add: toggleStage_def write_projects_def Let_def)

lemma flip_seeded:
  "complete_if_all_done (flip_stage ''framing'' seeded_project) =
     seeded_project\<lparr>p_stages := demo_stages True True False False\<rparr>"
  "complete_if_all_done
     (flip_stage ''roof'' (seeded_project\<lparr>p_stages := demo_stages True True False False\<rparr>)) =
     seeded_project\<lparr>p_stages := demo_stages True True True False\<rparr>"
  "complete_if_all_done
     (flip_stage ''finishing'' (seeded_project\<lparr>p_stages := demo_stages True True True False\<rparr>)) =
     seeded_project\<lparr>p_stages := demo_stages True True True True, p_status := ''completed''\<rparr>"
  "complete_if_all_done
     (flip_stage ''finishing''
        (seeded_project\<lparr>p_stages := demo_stages True True True True, p_status := ''completed''\<rparr>)) =
     seeded_project\<lparr>p_stages := demo_stages True True True False, p_status := ''completed''\<rparr>"
  by (simp_all add: complete_if_all_done_def flip_stage_def seeded_project_def demo_stages_def)

lemma projects_finish_calls:
  "projects (run ascii_lowering finish_calls init_store) =
     [seeded_project\<lparr>p_stages := demo_stages True True True True, p_status := ''completed''\<rparr>]"
proof -
  let ?s1 = "step ascii_lowering (ToggleStage ''p_e5e5e5e'' ''framing'') seeded_store"
  let ?s2 = "step ascii_lowering (ToggleStage ''p_e5e5e5e'' ''roof'') ?s1"
  let ?s3 = "step ascii_lowering (ToggleStage ''p_e5e5e5e'' ''finishing'') ?s2"
  have a: "projects ?s1 = [seeded_project\<lparr>p_stages := demo_stages True True False False\<rparr>]"
    using toggle_single [OF projects_seeded_store, where stageKey = "''framing''" and projectId = "''p_e5e5e5e''"]
    by (simp add: flip_seeded p_id_seeded del: step.simps)
  have b: "projects ?s2 = [seeded_project\<lparr>p_stages := demo_stages True True True False\<rparr>]"
    using toggle_single [OF a, where stageKey = "''roof''" and projectId = "''p_e5e5e5e''"]
    by (simp add: flip_seeded p_id_seeded del: step.simps)
  have c: "projects ?s3 =
      [seeded_project\<lparr>p_stages := demo_stages True True True True, p_status := ''completed''\<rparr>]"
    using toggle_single [OF b, where stageKey = "''finishing''" and projectId = "''p_e5e5e5e''"]
    by (simp add: flip_seeded p_id_seeded del: step.simps)
  have "run ascii_lowering finish_calls init_store = ?s3"
    by (simp add: run_def finish_calls_def step_seed_call del: step.simps)
  with c show ?thesis by (simp del: step.simps)
qed

lemma projects_reopen_calls:
  "projects (run ascii_lowering reopen_calls init_store) =
     [seeded_project\<lparr>p_stages := demo_stages True True True False, p_status := ''completed''\<rparr>]"
proof -
  have id: "p_id (seeded_project\<lparr>p_stages := demo_stages True True True True,
      p_status := ''completed''\<rparr>) = ''p_e5e5e5e''" by (simp add: p_id_seeded)
  have "run ascii_lowering reopen_calls init_store =
      step ascii_lowering (ToggleStage ''p_e5e5e5e'' ''finishing'') (run ascii_lowering finish_calls init_store)"
    by (simp add: run_def reopen_calls_def del: step.simps)
  with toggle_single [OF projects_finish_calls id, where stageKey = "''finishing''"] show ?thesis
    by (simp add: flip_seeded del: step.simps)
qed

theorem all_done_implies_completed_witness:
  "seeded_project\<lparr>p_stages := demo_stages True True True True, p_status := ''completed''\<rparr>
      \<in> set (projects (run ascii_lowering finish_calls init_store)) \<and>
   list_all s_done (p_stages (seeded_project\<lparr>p_stages := demo_stages True True True True,
      p_status := ''completed''\<rparr>)) \<and>
   p_status (seeded_project\<lparr>p_stages := demo_stages True True True True,
      p_status := ''completed''\<rparr>) = ''completed''"
proof -
  have a: "seeded_project\<lparr>p_stages := demo_stages True True True True, p_status := ''completed''\<rparr>
      \<in> set (projects (run ascii_lowering finish_calls init_store))"
    by (simp add: projects_finish_calls)
  have b: "list_all s_done (p_stages (seeded_project\<lparr>p_stages := demo_stages True True True True,
      p_status := ''completed''\<rparr>))"
    by (simp add: demo_stages_def)
  from a b all_done_implies_completed [where cs = finish_calls and L = ascii_lowering] show ?thesis by blast
qed

theorem completed_iff_all_done_counterexample:
  "seeded_project\<lparr>p_stages := demo_stages True True True False, p_status := ''completed''\<rparr>
      \<in> set (projects (run ascii_lowering reopen_calls init_store)) \<and>
   \<not> (list_all s_done (p_stages (seeded_project\<lparr>p_stages := demo_stages True True True False,
          p_status := ''completed''\<rparr>)) \<longleftrightarrow>
       p_status (seeded_project\<lparr>p_stages := demo_stages True True True False,
          p_status := ''completed''\<rparr>) = ''completed'')"
  by (simp add: projects_reopen_calls demo_stages_def)

lemma find_SomeD_pred: "find P xs = Some x \<Longrightarrow> P x"
  by (induction xs) (auto split: if_splits)

lemma complete_if_all_done_fields:
  "complete_if_all_done p = p\<lparr>p_stages := p_stages p,
     p_status := (if list_all s_done (p_stages p) then ''completed'' else p_status p)\<rparr>"
  by (simp add: complete_if_all_done_def)

lemma toggleStage_missing:
  "find (\<lambda>x. p_id x = projectId) (projects st) = None \<Longrightarrow>
     toggleStage projectId stageKey st = (st, None)"
  by (simp add: toggleStage_def)

lemma toggleStage_found:
  "find (\<lambda>x. p_id x = projectId) (projects st) = Some p \<Longrightarrow>
     toggleStage projectId stageKey st =
       (write_projects
          (update_first (\<lambda>x. p_id x = projectId)
             (\<lambda>_. complete_if_all_done (flip_stage stageKey p)) (projects st)) st,
        Some (complete_if_all_done (flip_stage stageKey p)))"
  by (simp add: toggleStage_def Let_def)

text \<open>
  Claim C2, as amended. \<^verbatim>\<open>toggleStage\<close> returns \<^verbatim>\<open>null\<close> and leaves the store as it is when
  no project has the id. When a project has the id, the call returns the first such project
  \<open>p'\<close>, never \<^verbatim>\<open>null\<close>, and writes the collection back with \<open>p'\<close> in place: the stages of
  \<open>p'\<close> are those of the project when it has no stage with the key, and otherwise exactly the
  first stage with the key has its \<open>done\<close> flag flipped; the status of \<open>p'\<close> is
  \<^verbatim>\<open>'completed'\<close> when all its stages are done and is unchanged otherwise; no other field
  and no other project changes.
\<close>

theorem toggleStage_results:
  "(find (\<lambda>x. p_id x = projectId) (projects st) = None \<longrightarrow>
      toggleStage projectId stageKey st = (st, None)) \<and>
   (\<forall>p. find (\<lambda>x. p_id x = projectId) (projects st) = Some p \<longrightarrow>
      (\<exists>p' qs rs.
         toggleStage projectId stageKey st =
           (st\<lparr>projects := qs @ p' # rs, posted := posted st @ [Sync KEYS_projects]\<rparr>, Some p') \<and>
         projects st = qs @ p # rs \<and> (\<forall>q \<in> set qs. p_id q \<noteq> projectId) \<and>
         p' = p\<lparr>p_stages := p_stages p', p_status := p_status p'\<rparr> \<and>
         p_status p' = (if list_all s_done (p_stages p') then ''completed'' else p_status p) \<and>
         (find (\<lambda>s. s_key s = stageKey) (p_stages p) = None \<longrightarrow> p_stages p' = p_stages p) \<and>
         (\<forall>s. find (\<lambda>s. s_key s = stageKey) (p_stages p) = Some s \<longrightarrow>
            (\<exists>ys zs. p_stages p = ys @ s # zs \<and> (\<forall>y \<in> set ys. s_key y \<noteq> stageKey) \<and>
               p_stages p' = ys @ s\<lparr>s_done := \<not> s_done s\<rparr> # zs))))"
proof (intro conjI allI impI)
  assume "find (\<lambda>x. p_id x = projectId) (projects st) = None"
  then show "toggleStage projectId stageKey st = (st, None)" by (rule toggleStage_missing)
next
  fix p
  assume found: "find (\<lambda>x. p_id x = projectId) (projects st) = Some p"
  let ?p' = "complete_if_all_done (flip_stage stageKey p)"
  from update_first_some [OF found, of "\<lambda>_. ?p'"] obtain qs rs where
    split: "projects st = qs @ p # rs" "\<forall>q \<in> set qs. p_id q \<noteq> projectId"
      "update_first (\<lambda>x. p_id x = projectId) (\<lambda>_. ?p') (projects st) = qs @ ?p' # rs"
    by blast
  have res: "toggleStage projectId stageKey st =
      (st\<lparr>projects := qs @ ?p' # rs, posted := posted st @ [Sync KEYS_projects]\<rparr>, Some ?p')"
    using toggleStage_found [OF found, of stageKey] by (simp add: write_projects_def split(3))
  have fields: "?p' = p\<lparr>p_stages := p_stages ?p', p_status := p_status ?p'\<rparr>"
    by (simp add: complete_if_all_done_def flip_stage_def)
  have status: "p_status ?p' = (if list_all s_done (p_stages ?p') then ''completed'' else p_status p)"
    by (simp add: complete_if_all_done_def flip_stage_def)
  have none: "find (\<lambda>s. s_key s = stageKey) (p_stages p) = None \<longrightarrow> p_stages ?p' = p_stages p"
    by (simp add: flip_stage_def update_first_none)
  have some: "\<forall>s. find (\<lambda>s. s_key s = stageKey) (p_stages p) = Some s \<longrightarrow>
            (\<exists>ys zs. p_stages p = ys @ s # zs \<and> (\<forall>y \<in> set ys. s_key y \<noteq> stageKey) \<and>
               p_stages ?p' = ys @ s\<lparr>s_done := \<not> s_done s\<rparr> # zs)"
  proof (intro allI impI)
    fix s
    assume "find (\<lambda>s. s_key s = stageKey) (p_stages p) = Some s"
    from update_first_some [OF this, of "\<lambda>s. s\<lparr>s_done := \<not> s_done s\<rparr>"]
    show "\<exists>ys zs. p_stages p = ys @ s # zs \<and> (\<forall>y \<in> set ys. s_key y \<noteq> stageKey) \<and>
               p_stages ?p' = ys @ s\<lparr>s_done := \<not> s_done s\<rparr> # zs"
      by (simp add: flip_stage_def)
  qed
  show "\<exists>p' qs rs.
         toggleStage projectId stageKey st =
           (st\<lparr>projects := qs @ p' # rs, posted := posted st @ [Sync KEYS_projects]\<rparr>, Some p') \<and>
         projects st = qs @ p # rs \<and> (\<forall>q \<in> set qs. p_id q \<noteq> projectId) \<and>
         p' = p\<lparr>p_stages := p_stages p', p_status := p_status p'\<rparr> \<and>
         p_status p' = (if list_all s_done (p_stages p') then ''completed'' else p_status p) \<and>
         (find (\<lambda>s. s_key s = stageKey) (p_stages p) = None \<longrightarrow> p_stages p' = p_stages p) \<and>
         (\<forall>s. find (\<lambda>s. s_key s = stageKey) (p_stages p) = Some s \<longrightarrow>
            (\<exists>ys zs. p_stages p = ys @ s # zs \<and> (\<forall>y \<in> set ys. s_key y \<noteq> stageKey) \<and>
               p_stages p' = ys @ s\<lparr>s_done := \<not> s_done s\<rparr> # zs))"
  proof (intro exI conjI)
    show "toggleStage projectId stageKey st =
        (st\<lparr>projects := qs @ ?p' # rs, posted := posted st @ [Sync KEYS_projects]\<rparr>, Some ?p')"
      by (rule res)
    show "projects st = qs @ p # rs" by (rule split(1))
    show "\<forall>q \<in> set qs. p_id q \<noteq> projectId" by (rule split(2))
    show "?p' = p\<lparr>p_stages := p_stages ?p', p_status := p_status ?p'\<rparr>" by (rule fields)
    show "p_status ?p' = (if list_all s_done (p_stages ?p') then ''completed'' else p_status p)"
      by (rule status)
    show "find (\<lambda>s. s_key s = stageKey) (p_stages p) = None \<longrightarrow> p_stages ?p' = p_stages p"
      by (rule none)
    show "\<forall>s. find (\<lambda>s. s_key s = stageKey) (p_stages p) = Some s \<longrightarrow>
            (\<exists>ys zs. p_stages p = ys @ s # zs \<and> (\<forall>y \<in> set ys. s_key y \<noteq> stageKey) \<and>
               p_stages ?p' = ys @ s\<lparr>s_done := \<not> s_done s\<rparr> # zs)"
      by (rule some)
  qed
qed

text \<open>
  Claim C5. For a project that exists and a stage key that it has, two calls of
  \<^verbatim>\<open>toggleStage\<close> with the same arguments both return the project; the \<open>done\<close> flag of the
  stage is flipped after the first call and has its original value after the second. All
  stages of all projects are then as they were: only the derived status may differ.
\<close>

theorem toggleStage_twice:
  assumes "find (\<lambda>x. p_id x = projectId) (projects st) = Some p"
    and "find (\<lambda>s. s_key s = stageKey) (p_stages p) = Some s"
  shows "\<exists>st1 p1 st2 p2.
     toggleStage projectId stageKey st = (st1, Some p1) \<and>
     toggleStage projectId stageKey st1 = (st2, Some p2) \<and>
     find (\<lambda>s. s_key s = stageKey) (p_stages p1) = Some (s\<lparr>s_done := \<not> s_done s\<rparr>) \<and>
     find (\<lambda>s. s_key s = stageKey) (p_stages p2) = Some s \<and>
     p_stages p2 = p_stages p \<and>
     map p_stages (projects st2) = map p_stages (projects st)"
proof -
  let ?K = "\<lambda>s. s_key s = stageKey"
  let ?F = "\<lambda>s. s\<lparr>s_done := \<not> s_done s\<rparr>"
  let ?I = "\<lambda>x. p_id x = projectId"
  let ?p1 = "complete_if_all_done (flip_stage stageKey p)"
  let ?st1 = "write_projects (update_first ?I (\<lambda>_. ?p1) (projects st)) st"
  let ?p2 = "complete_if_all_done (flip_stage stageKey ?p1)"
  let ?st2 = "write_projects (update_first ?I (\<lambda>_. ?p2) (projects ?st1)) ?st1"
  have id_p: "p_id p = projectId" using assms(1) by (rule find_SomeD_pred)
  have key_s: "s_key s = stageKey" using assms(2) by (rule find_SomeD_pred)
  have r1: "toggleStage projectId stageKey st = (?st1, Some ?p1)"
    using assms(1) by (rule toggleStage_found)
  have found1: "find ?I (projects ?st1) = Some ?p1"
    using find_update_first [OF assms(1), of "\<lambda>_. ?p1"] id_p
    by (simp add: write_projects_def)
  have r2: "toggleStage projectId stageKey ?st1 = (?st2, Some ?p2)"
    using found1 by (rule toggleStage_found)
  have stages1: "p_stages ?p1 = update_first ?K ?F (p_stages p)"
    by (simp add: flip_stage_def)
  have f1: "find ?K (p_stages ?p1) = Some (?F s)"
    unfolding stages1 using assms(2) key_s by (intro find_update_first) simp_all
  have "p_stages ?p2 = update_first ?K ?F (update_first ?K ?F (p_stages p))"
    by (simp add: flip_stage_def)
  also have "\<dots> = update_first ?K (\<lambda>y. ?F (?F y)) (p_stages p)"
    using assms(2) key_s by (intro update_first_twice) simp_all
  also have "\<dots> = p_stages p"
    using assms(2) by (rule update_first_id) simp
  finally have stages2: "p_stages ?p2 = p_stages p" .
  have f2: "find ?K (p_stages ?p2) = Some s"
    using assms(2) by (simp only: stages2)
  have "projects ?st2 = update_first ?I (\<lambda>_. ?p2) (update_first ?I (\<lambda>_. ?p1) (projects st))"
    by (simp add: write_projects_def)
  also have "\<dots> = update_first ?I (\<lambda>_. ?p2) (projects st)"
    using assms(1) id_p by (subst update_first_twice) simp_all
  finally have "projects ?st2 = update_first ?I (\<lambda>_. ?p2) (projects st)" .
  moreover from update_first_some [OF assms(1), of "\<lambda>_. ?p2"] obtain qs rs where
    "projects st = qs @ p # rs" "update_first ?I (\<lambda>_. ?p2) (projects st) = qs @ ?p2 # rs"
    by blast
  ultimately have all: "map p_stages (projects ?st2) = map p_stages (projects st)"
    using stages2 by simp
  from r1 r2 f1 f2 stages2 all show ?thesis by blast
qed

lemma find_seeded_project:
  "find (\<lambda>x. p_id x = ''p_e5e5e5e'') (projects seeded_store) = Some seeded_project"
  by (simp add: projects_seeded_store p_id_seeded)

lemma find_seeded_roof:
  "find (\<lambda>s. s_key s = ''roof'') (p_stages seeded_project) =
     Some \<lparr>s_key = ''roof'', s_label = ''Roof'', s_done = False\<rparr>"
  by (simp add: seeded_project_def demo_stages_def)

lemma find_seeded_attic:
  "find (\<lambda>s. s_key s = ''attic'') (p_stages seeded_project) = None"
  by (simp add: seeded_project_def demo_stages_def)

lemma find_no_project:
  "find (\<lambda>x. p_id x = ''p_0000000'') (projects seeded_store) = None"
  by (simp add: projects_seeded_store p_id_seeded)

theorem toggleStage_results_witness:
  "(find (\<lambda>x. p_id x = ''p_0000000'') (projects seeded_store) = None \<and>
    toggleStage ''p_0000000'' ''roof'' seeded_store = (seeded_store, None)) \<and>
   (find (\<lambda>x. p_id x = ''p_e5e5e5e'') (projects seeded_store) = Some seeded_project \<and>
    find (\<lambda>s. s_key s = ''attic'') (p_stages seeded_project) = None \<and>
    (\<exists>p'. snd (toggleStage ''p_e5e5e5e'' ''attic'' seeded_store) = Some p' \<and>
       p_stages p' = p_stages seeded_project)) \<and>
   (find (\<lambda>s. s_key s = ''roof'') (p_stages seeded_project) =
      Some \<lparr>s_key = ''roof'', s_label = ''Roof'', s_done = False\<rparr> \<and>
    (\<exists>p' ys zs. snd (toggleStage ''p_e5e5e5e'' ''roof'' seeded_store) = Some p' \<and>
       p_stages seeded_project = ys @ \<lparr>s_key = ''roof'', s_label = ''Roof'', s_done = False\<rparr> # zs \<and>
       p_stages p' = ys @ \<lparr>s_key = ''roof'', s_label = ''Roof'', s_done = True\<rparr> # zs))"
proof -
  have a: "toggleStage ''p_0000000'' ''roof'' seeded_store = (seeded_store, None)"
    using toggleStage_results [of "''p_0000000''" seeded_store "''roof''"] find_no_project
    by blast
  have b: "\<exists>p'. snd (toggleStage ''p_e5e5e5e'' ''attic'' seeded_store) = Some p' \<and>
       p_stages p' = p_stages seeded_project"
    using toggleStage_results [of "''p_e5e5e5e''" seeded_store "''attic''"]
      find_seeded_project find_seeded_attic
    by fastforce
  have c: "\<exists>p' ys zs. snd (toggleStage ''p_e5e5e5e'' ''roof'' seeded_store) = Some p' \<and>
       p_stages seeded_project = ys @ \<lparr>s_key = ''roof'', s_label = ''Roof'', s_done = False\<rparr> # zs \<and>
       p_stages p' = ys @ \<lparr>s_key = ''roof'', s_label = ''Roof'', s_done = True\<rparr> # zs"
    using toggleStage_results [of "''p_e5e5e5e''" seeded_store "''roof''"]
      find_seeded_project find_seeded_roof
    by fastforce
  from a b c find_no_project find_seeded_project find_seeded_attic find_seeded_roof
  show ?thesis by blast
qed

theorem toggleStage_missing_stage_counterexample:
  "find (\<lambda>x. p_id x = ''p_e5e5e5e'') (projects seeded_store) = Some seeded_project \<and>
   find (\<lambda>s. s_key s = ''attic'') (p_stages seeded_project) = None \<and>
   toggleStage ''p_e5e5e5e'' ''attic'' seeded_store \<noteq> (seeded_store, None) \<and>
   snd (toggleStage ''p_e5e5e5e'' ''attic'' seeded_store) = Some seeded_project"
proof -
  have "complete_if_all_done (flip_stage ''attic'' seeded_project) = seeded_project"
    by (simp add: complete_if_all_done_def flip_stage_def seeded_project_def demo_stages_def)
  with toggleStage_found [OF find_seeded_project, of "''attic''"]
  have "snd (toggleStage ''p_e5e5e5e'' ''attic'' seeded_store) = Some seeded_project"
    by simp
  with find_seeded_project find_seeded_attic show ?thesis by auto
qed

theorem toggleStage_twice_witness:
  "find (\<lambda>x. p_id x = ''p_e5e5e5e'') (projects seeded_store) = Some seeded_project \<and>
   find (\<lambda>s. s_key s = ''roof'') (p_stages seeded_project) =
     Some \<lparr>s_key = ''roof'', s_label = ''Roof'', s_done = False\<rparr> \<and>
   (\<exists>st1 p1 st2 p2.
     toggleStage ''p_e5e5e5e'' ''roof'' seeded_store = (st1, Some p1) \<and>
     toggleStage ''p_e5e5e5e'' ''roof'' st1 = (st2, Some p2) \<and>
     find (\<lambda>s. s_key s = ''roof'') (p_stages p1) =
       Some \<lparr>s_key = ''roof'', s_label = ''Roof'', s_done = True\<rparr> \<and>
     find (\<lambda>s. s_key s = ''roof'') (p_stages p2) =
       Some \<lparr>s_key = ''roof'', s_label = ''Roof'', s_done = False\<rparr> \<and>
     p_stages p2 = p_stages seeded_project)"
proof -
  from toggleStage_twice [OF find_seeded_project find_seeded_roof]
  have "\<exists>st1 p1 st2 p2.
     toggleStage ''p_e5e5e5e'' ''roof'' seeded_store = (st1, Some p1) \<and>
     toggleStage ''p_e5e5e5e'' ''roof'' st1 = (st2, Some p2) \<and>
     find (\<lambda>s. s_key s = ''roof'') (p_stages p1) =
       Some \<lparr>s_key = ''roof'', s_label = ''Roof'', s_done = True\<rparr> \<and>
     find (\<lambda>s. s_key s = ''roof'') (p_stages p2) =
       Some \<lparr>s_key = ''roof'', s_label = ''Roof'', s_done = False\<rparr> \<and>
     p_stages p2 = p_stages seeded_project"
    by simp blast
  with find_seeded_project find_seeded_roof show ?thesis by blast
qed

section \<open>Lead conversion\<close>

lemma or_str_Val_empty: "or_str (Val s) [] = s"
  by (simp add: or_str_def)

lemma convertLeadToProject_missing:
  "find (\<lambda>l. l_id l = leadId) (leads st) = None \<Longrightarrow>
     convertLeadToProject L ru tu rp tp leadId customerName budget st = (st, Inl Lead_not_found)"
  by (simp add: convertLeadToProject_def)

lemma convertLeadToProject_found:
  assumes "find (\<lambda>l. l_id l = leadId) (leads st) = Some lead"
  shows "\<exists>cust project st' qs rs.
       convertLeadToProject L ru tu rp tp leadId customerName budget st = (st', Inr project) \<and>
       (case find (\<lambda>x. toLowerCase L (u_email x) = toLowerCase L (l_email lead)) (users st) of
          Some u \<Rightarrow> cust = u \<and> users st' = users st \<and>
            posted st' = posted st @ [Sync KEYS_projects, Sync KEYS_leads]
        | None \<Rightarrow>
            cust = \<lparr>u_id = ''u_'' @ ru, u_email = toLowerCase L (l_email lead),
                    u_name = default_param customerName (Val ''Unknown''),
                    u_role = Val ''customer'', u_createdAt = tu\<rparr> \<and>
            users st' = users st @ [cust] \<and>
            posted st' = posted st @ [Sync KEYS_users, Sync KEYS_projects, Sync KEYS_leads]) \<and>
       p_id project = ''p_'' @ rp \<and> p_customerId project = u_id cust \<and>
       p_referrerId project = (if truthy_str (l_referrerId lead) then l_referrerId lead else Null) \<and>
       p_budget project = or_num budget 0 \<and>
       projects st' = project # projects st \<and>
       leads st = qs @ lead # rs \<and> (\<forall>q \<in> set qs. l_id q \<noteq> leadId) \<and>
       leads st' =
         qs @ lead\<lparr>l_status := ''converted'', l_convertedProjectId := Val (p_id project)\<rparr> # rs \<and>
       defaults st' = defaults st \<and> session st' = session st"
proof -
  let ?F = "\<lambda>pid l. l\<lparr>l_status := ''converted'', l_convertedProjectId := Val pid\<rparr>"
  from update_first_some [OF assms, of "?F (''p_'' @ rp)"] obtain qs rs where
    split: "leads st = qs @ lead # rs" "\<forall>q \<in> set qs. l_id q \<noteq> leadId"
      "update_first (\<lambda>l. l_id l = leadId) (?F (''p_'' @ rp)) (leads st)
         = qs @ ?F (''p_'' @ rp) lead # rs"
    by blast
  show ?thesis
  proof (cases "find (\<lambda>x. toLowerCase L (u_email x) = toLowerCase L (l_email lead)) (users st)")
    case None
    with assms split show ?thesis
      by (simp add: convertLeadToProject_def registerOrGetUserByEmail_def addProject_def
          write_users_def write_projects_def write_leads_def uid_def or_str_Val_empty
          or_null_def default_param_def Let_def; blast)
  next
    case (Some u)
    with assms split show ?thesis
      by (simp add: convertLeadToProject_def registerOrGetUserByEmail_def addProject_def
          write_users_def write_projects_def write_leads_def uid_def or_str_Val_empty
          or_null_def default_param_def Let_def; blast)
  qed
qed

text \<open>
  Claim C6, as amended. \<^verbatim>\<open>convertLeadToProject\<close> returns the error \<^verbatim>\<open>'Lead not found'\<close> and
  leaves the store as it is when no lead has the id. Otherwise, with \<open>lead\<close> the first lead
  with the id, it takes as customer the first user whose email has the same lower-casing as
  the lead's or, when there is none, appends a new customer user with the lead's email,
  lower-cased; it prepends a new project whose
  \<open>customerId\<close> is the customer's id and whose \<open>referrerId\<close> is the lead's \<open>referrerId\<close> when
  that is truthy and \<^verbatim>\<open>null\<close> otherwise; it sets the lead's status to \<^verbatim>\<open>'converted'\<close> and its
  \<open>convertedProjectId\<close> to the id of the new project; it writes the projects and the leads
  collections and returns the new project.
\<close>

theorem convertLeadToProject_results:
  "(find (\<lambda>l. l_id l = leadId) (leads st) = None \<longrightarrow>
      convertLeadToProject L ru tu rp tp leadId customerName budget st = (st, Inl Lead_not_found)) \<and>
   (\<forall>lead. find (\<lambda>l. l_id l = leadId) (leads st) = Some lead \<longrightarrow>
     (\<exists>cust project st' qs rs.
       convertLeadToProject L ru tu rp tp leadId customerName budget st = (st', Inr project) \<and>
       (case find (\<lambda>x. toLowerCase L (u_email x) = toLowerCase L (l_email lead)) (users st) of
          Some u \<Rightarrow> cust = u \<and> users st' = users st \<and>
            posted st' = posted st @ [Sync KEYS_projects, Sync KEYS_leads]
        | None \<Rightarrow>
            cust = \<lparr>u_id = ''u_'' @ ru, u_email = toLowerCase L (l_email lead),
                    u_name = default_param customerName (Val ''Unknown''),
                    u_role = Val ''customer'', u_createdAt = tu\<rparr> \<and>
            users st' = users st @ [cust] \<and>
            posted st' = posted st @ [Sync KEYS_users, Sync KEYS_projects, Sync KEYS_leads]) \<and>
       p_id project = ''p_'' @ rp \<and> p_customerId project = u_id cust \<and>
       p_referrerId project = (if truthy_str (l_referrerId lead) then l_referrerId lead else Null) \<and>
       p_budget project = or_num budget 0 \<and>
       projects st' = project # projects st \<and>
       leads st = qs @ lead # rs \<and> (\<forall>q \<in> set qs. l_id q \<noteq> leadId) \<and>
       leads st' =
         qs @ lead\<lparr>l_status := ''converted'', l_convertedProjectId := Val (p_id project)\<rparr> # rs \<and>
       defaults st' = defaults st \<and> session st' = session st))"
  using convertLeadToProject_missing [of leadId st L ru tu rp tp customerName budget]
    convertLeadToProject_found [of leadId st _ L ru tu rp tp customerName budget]
  by blast

text \<open>
  Claim C7, as amended. A call of \<^verbatim>\<open>convertLeadToProject\<close> on a lead whose status is already
  \<^verbatim>\<open>'converted'\<close> is not rejected: it succeeds as the first conversion did, prepends another
  project to the projects collection, and overwrites the lead's \<open>convertedProjectId\<close> with the
  id of that project; the lead's status stays \<^verbatim>\<open>'converted'\<close>.
\<close>

theorem convertLeadToProject_again:
  assumes "find (\<lambda>l. l_id l = leadId) (leads st) = Some lead"
    and "l_status lead = ''converted''"
  shows "\<exists>project st' qs rs.
       convertLeadToProject L ru tu rp tp leadId customerName budget st = (st', Inr project) \<and>
       p_id project = ''p_'' @ rp \<and>
       projects st' = project # projects st \<and>
       leads st = qs @ lead # rs \<and> (\<forall>q \<in> set qs. l_id q \<noteq> leadId) \<and>
       leads st' = qs @ lead\<lparr>l_convertedProjectId := Val (p_id project)\<rparr> # rs"
proof -
  have "lead\<lparr>l_status := ''converted'', l_convertedProjectId := Val pid\<rparr> =
      lead\<lparr>l_convertedProjectId := Val pid\<rparr>" for pid
    using assms(2) by simp
  with convertLeadToProject_found [OF assms(1), of L ru tu rp tp customerName budget]
  show ?thesis by metis
qed

lemma leads_seeded_store: "leads seeded_store = [seeded_lead]"
  by (simp add: seeded_store_def seedDemo_def init_store_def write_users_def write_leads_def
      write_projects_def uid_def Let_def seeded_lead_def)

lemma find_seeded_lead:
  "find (\<lambda>l. l_id l = ''l_d4d4d4d'') (leads seeded_store) = Some seeded_lead"
  by (simp add: leads_seeded_store seeded_lead_def)

lemma find_no_lead: "find (\<lambda>l. l_id l = ''l_0000000'') (leads seeded_store) = None"
  by (simp add: leads_seeded_store seeded_lead_def)

lemma ascii_lower_lead_examples:
  "ascii_lower ''lead1@example.com'' = ''lead1@example.com''"
  "ascii_lower ''New@Lead.com'' = ''new@lead.com''"
  "ascii_lower ''new@lead.com'' = ''new@lead.com''"
  by code_simp+

lemma toLowerCase_lead_examples:
  "toLowerCase ascii_lowering ''lead1@example.com'' = ''lead1@example.com''"
  "toLowerCase ascii_lowering ''New@Lead.com'' = ''new@lead.com''"
  "toLowerCase ascii_lowering ''new@lead.com'' = ''new@lead.com''"
  by (simp_all add: toLowerCase_ascii_lowering ascii_lower_lead_examples)

lemma no_user_for_seeded_lead:
  "find (\<lambda>x. toLowerCase ascii_lowering (u_email x) = toLowerCase ascii_lowering (l_email seeded_lead)) (users seeded_store)
     = None"
  by (simp add: users_seeded_store seeded_lead_def toLowerCase_examples toLowerCase_lead_examples)

theorem convertLeadToProject_results_witness:
  "(find (\<lambda>l. l_id l = ''l_0000000'') (leads seeded_store) = None \<and>
    convertLeadToProject ascii_lowering ''f6f6f6f'' ''2024-05-02T09:00:00.000Z'' ''g7g7g7g''
      ''2024-05-02T09:00:00.001Z'' ''l_0000000'' (Val ''Lee'') (Val 5000) seeded_store
      = (seeded_store, Inl Lead_not_found)) \<and>
   (find (\<lambda>l. l_id l = ''l_d4d4d4d'') (leads seeded_store) = Some seeded_lead \<and>
    (\<exists>project st'.
       convertLeadToProject ascii_lowering ''f6f6f6f'' ''2024-05-02T09:00:00.000Z'' ''g7g7g7g''
         ''2024-05-02T09:00:00.001Z'' ''l_d4d4d4d'' (Val ''Lee'') (Val 5000) seeded_store
         = (st', Inr project) \<and>
       p_id project = ''p_g7g7g7g'' \<and> p_customerId project = ''u_f6f6f6f'' \<and>
       p_referrerId project = Val ''u_a1a1a1a'' \<and> p_budget project = 5000 \<and>
       projects st' = project # projects seeded_store \<and>
       leads st' =
         [seeded_lead\<lparr>l_status := ''converted'', l_convertedProjectId := Val ''p_g7g7g7g''\<rparr>]))"
proof -
  have a: "convertLeadToProject ascii_lowering ''f6f6f6f'' ''2024-05-02T09:00:00.000Z'' ''g7g7g7g''
      ''2024-05-02T09:00:00.001Z'' ''l_0000000'' (Val ''Lee'') (Val 5000) seeded_store
      = (seeded_store, Inl Lead_not_found)"
    using find_no_lead
      convertLeadToProject_results [of "''l_0000000''" seeded_store ascii_lowering "''f6f6f6f''"
        "''2024-05-02T09:00:00.000Z''" "''g7g7g7g''" "''2024-05-02T09:00:00.001Z''"
        "Val ''Lee''" "Val 5000"]
    by blast
  from find_seeded_lead
    convertLeadToProject_results [of "''l_d4d4d4d''" seeded_store ascii_lowering "''f6f6f6f''"
        "''2024-05-02T09:00:00.000Z''" "''g7g7g7g''" "''2024-05-02T09:00:00.001Z''"
        "Val ''Lee''" "Val 5000"]
  obtain cust project st' qs rs where r:
    "convertLeadToProject ascii_lowering ''f6f6f6f'' ''2024-05-02T09:00:00.000Z'' ''g7g7g7g''
         ''2024-05-02T09:00:00.001Z'' ''l_d4d4d4d'' (Val ''Lee'') (Val 5000) seeded_store
         = (st', Inr project)"
    "case find (\<lambda>x. toLowerCase ascii_lowering (u_email x) = toLowerCase ascii_lowering (l_email seeded_lead))
            (users seeded_store) of
       Some u \<Rightarrow> cust = u \<and> users st' = users seeded_store \<and>
            posted st' = posted seeded_store @ [Sync KEYS_projects, Sync KEYS_leads]
     | None \<Rightarrow>
            cust = \<lparr>u_id = ''u_'' @ ''f6f6f6f'', u_email = toLowerCase ascii_lowering (l_email seeded_lead),
                    u_name = default_param (Val ''Lee'') (Val ''Unknown''),
                    u_role = Val ''customer'', u_createdAt = ''2024-05-02T09:00:00.000Z''\<rparr> \<and>
            users st' = users seeded_store @ [cust] \<and>
            posted st' =
              posted seeded_store @ [Sync KEYS_users, Sync KEYS_projects, Sync KEYS_leads]"
    "p_id project = ''p_'' @ ''g7g7g7g''" "p_customerId project = u_id cust"
    "p_referrerId project =
       (if truthy_str (l_referrerId seeded_lead) then l_referrerId seeded_lead else Null)"
    "p_budget project = or_num (Val 5000) 0"
    "projects st' = project # projects seeded_store"
    "leads seeded_store = qs @ seeded_lead # rs"
    "leads st' =
       qs @ seeded_lead\<lparr>l_status := ''converted'', l_convertedProjectId := Val (p_id project)\<rparr> # rs"
    by blast
  from r(8) have qs: "qs = []" "rs = []"
    by (simp_all add: leads_seeded_store append_eq_Cons_conv Cons_eq_append_conv)
  from r(2) have cust: "u_id cust = ''u_f6f6f6f''"
    by (simp add: no_user_for_seeded_lead)
  have "p_id project = ''p_g7g7g7g''" using r(3) by simp
  moreover have "p_customerId project = ''u_f6f6f6f''" using r(4) cust by simp
  moreover have "p_referrerId project = Val ''u_a1a1a1a''"
    using r(5) by (simp add: seeded_lead_def truthy_str_def)
  moreover have "p_budget project = 5000" using r(6) by (simp add: or_num_def)
  moreover have "leads st' =
      [seeded_lead\<lparr>l_status := ''converted'', l_convertedProjectId := Val ''p_g7g7g7g''\<rparr>]"
    using r(9) r(3) qs by simp
  ultimately have b: "\<exists>project st'.
       convertLeadToProject ascii_lowering ''f6f6f6f'' ''2024-05-02T09:00:00.000Z'' ''g7g7g7g''
         ''2024-05-02T09:00:00.001Z'' ''l_d4d4d4d'' (Val ''Lee'') (Val 5000) seeded_store
         = (st', Inr project) \<and>
       p_id project = ''p_g7g7g7g'' \<and> p_customerId project = ''u_f6f6f6f'' \<and>
       p_referrerId project = Val ''u_a1a1a1a'' \<and> p_budget project = 5000 \<and>
       projects st' = project # projects seeded_store \<and>
       leads st' =
         [seeded_lead\<lparr>l_status := ''converted'', l_convertedProjectId := Val ''p_g7g7g7g''\<rparr>]"
    using r(1) r(7) by blast
  from a b find_no_lead find_seeded_lead show ?thesis by blast
qed

lemma leads_walk_in_store: "leads walk_in_store = [walk_in_lead]"
  by (simp add: walk_in_store_def addLead_def write_leads_def init_store_def uid_def Let_def
      walk_in_lead_def or_str_def toLowerCase_lead_examples)

lemma find_walk_in_lead:
  "find (\<lambda>l. l_id l = ''l_h8h8h8h'') (leads walk_in_store) = Some walk_in_lead"
  by (simp add: leads_walk_in_store walk_in_lead_def)

theorem convertLeadToProject_referrer_counterexample:
  "find (\<lambda>l. l_id l = ''l_h8h8h8h'') (leads walk_in_store) = Some walk_in_lead \<and>
   l_referrerId walk_in_lead = Val [] \<and>
   map_sum id p_referrerId
     (snd (convertLeadToProject ascii_lowering ''i9i9i9i'' ''2024-05-03T09:00:00.000Z'' ''j0j0j0j''
        ''2024-05-03T09:00:00.001Z'' ''l_h8h8h8h'' (Val ''Eve'') (Val 5000) walk_in_store))
     = Inr Null \<and>
   Null \<noteq> l_referrerId walk_in_lead"
proof -
  have "map_sum id p_referrerId
     (snd (convertLeadToProject ascii_lowering ''i9i9i9i'' ''2024-05-03T09:00:00.000Z'' ''j0j0j0j''
        ''2024-05-03T09:00:00.001Z'' ''l_h8h8h8h'' (Val ''Eve'') (Val 5000) walk_in_store))
     = Inr Null"
    using find_walk_in_lead
    by (simp add: convertLeadToProject_def registerOrGetUserByEmail_def addProject_def
        or_null_def truthy_str_def walk_in_lead_def Let_def split: option.splits prod.splits)
  with find_walk_in_lead show ?thesis by (simp add: walk_in_lead_def)
qed

lemma leads_converted_store:
  "leads converted_store =
     [seeded_lead\<lparr>l_status := ''converted'', l_convertedProjectId := Val ''p_g7g7g7g''\<rparr>]"
  using find_seeded_lead
  by (simp add: converted_store_def convertLeadToProject_def registerOrGetUserByEmail_def
      addProject_def write_leads_def write_projects_def write_users_def uid_def Let_def
      leads_seeded_store seeded_lead_def split: option.splits prod.splits)

lemma find_converted_lead:
  "find (\<lambda>l. l_id l = ''l_d4d4d4d'') (leads converted_store) =
     Some (seeded_lead\<lparr>l_status := ''converted'', l_convertedProjectId := Val ''p_g7g7g7g''\<rparr>)"
  by (simp add: leads_converted_store seeded_lead_def)

theorem convertLeadToProject_again_witness:
  "find (\<lambda>l. l_id l = ''l_d4d4d4d'') (leads converted_store) =
     Some (seeded_lead\<lparr>l_status := ''converted'', l_convertedProjectId := Val ''p_g7g7g7g''\<rparr>) \<and>
   l_status (seeded_lead\<lparr>l_status := ''converted'', l_convertedProjectId := Val ''p_g7g7g7g''\<rparr>)
     = ''converted'' \<and>
   (\<exists>project st'.
       convertLeadToProject ascii_lowering ''k1k1k1k'' ''2024-05-04T09:00:00.000Z'' ''m2m2m2m''
         ''2024-05-04T09:00:00.001Z'' ''l_d4d4d4d'' (Val ''Lee'') (Val 7000) converted_store
         = (st', Inr project) \<and>
       p_id project = ''p_m2m2m2m'' \<and>
       projects st' = project # projects converted_store \<and>
       leads st' =
         [seeded_lead\<lparr>l_status := ''converted'', l_convertedProjectId := Val ''p_m2m2m2m''\<rparr>])"
proof -
  let ?lead = "seeded_lead\<lparr>l_status := ''converted'', l_convertedProjectId := Val ''p_g7g7g7g''\<rparr>"
  have st: "l_status ?lead = ''converted''" by simp
  from convertLeadToProject_again [OF find_converted_lead st, of ascii_lowering "''k1k1k1k''"
      "''2024-05-04T09:00:00.000Z''" "''m2m2m2m''" "''2024-05-04T09:00:00.001Z''"
      "Val ''Lee''" "Val 7000"]
  obtain project st' qs rs where r:
    "convertLeadToProject ascii_lowering ''k1k1k1k'' ''2024-05-04T09:00:00.000Z'' ''m2m2m2m''
         ''2024-05-04T09:00:00.001Z'' ''l_d4d4d4d'' (Val ''Lee'') (Val 7000) converted_store
         = (st', Inr project)"
    "p_id project = ''p_'' @ ''m2m2m2m''"
    "projects st' = project # projects converted_store"
    "leads converted_store = qs @ ?lead # rs"
    "leads st' = qs @ ?lead\<lparr>l_convertedProjectId := Val (p_id project)\<rparr> # rs"
    by blast
  from r(4) have qs: "qs = []" "rs = []"
    by (simp_all add: leads_converted_store append_eq_Cons_conv Cons_eq_append_conv)
  have "p_id project = ''p_m2m2m2m''" using r(2) by simp
  moreover from this have "leads st' =
      [seeded_lead\<lparr>l_status := ''converted'', l_convertedProjectId := Val ''p_m2m2m2m''\<rparr>]"
    using r(5) qs by simp
  ultimately have "\<exists>project st'.
       convertLeadToProject ascii_lowering ''k1k1k1k'' ''2024-05-04T09:00:00.000Z'' ''m2m2m2m''
         ''2024-05-04T09:00:00.001Z'' ''l_d4d4d4d'' (Val ''Lee'') (Val 7000) converted_store
         = (st', Inr project) \<and>
       p_id project = ''p_m2m2m2m'' \<and>
       projects st' = project # projects converted_store \<and>
       leads st' =
         [seeded_lead\<lparr>l_status := ''converted'', l_convertedProjectId := Val ''p_m2m2m2m''\<rparr>]"
    using r(1) r(3) by blast
  with find_converted_lead st show ?thesis by blast
qed

theorem convertLeadToProject_converted_counterexample:
  "find (\<lambda>l. l_id l = ''l_d4d4d4d'') (leads converted_store) =
     Some (seeded_lead\<lparr>l_status := ''converted'', l_convertedProjectId := Val ''p_g7g7g7g''\<rparr>) \<and>
   \<not> isl (snd (convertLeadToProject ascii_lowering ''k1k1k1k'' ''2024-05-04T09:00:00.000Z'' ''m2m2m2m''
         ''2024-05-04T09:00:00.001Z'' ''l_d4d4d4d'' (Val ''Lee'') (Val 7000) converted_store)) \<and>
   length (projects (fst (convertLeadToProject ascii_lowering ''k1k1k1k'' ''2024-05-04T09:00:00.000Z''
         ''m2m2m2m'' ''2024-05-04T09:00:00.001Z'' ''l_d4d4d4d'' (Val ''Lee'') (Val 7000)
         converted_store))) = Suc (length (projects converted_store)) \<and>
   leads (fst (convertLeadToProject ascii_lowering ''k1k1k1k'' ''2024-05-04T09:00:00.000Z''
         ''m2m2m2m'' ''2024-05-04T09:00:00.001Z'' ''l_d4d4d4d'' (Val ''Lee'') (Val 7000)
         converted_store)) \<noteq> leads converted_store"
proof -
  let ?lead = "seeded_lead\<lparr>l_status := ''converted'', l_convertedProjectId := Val ''p_g7g7g7g''\<rparr>"
  from convertLeadToProject_found [OF find_converted_lead, of ascii_lowering "''k1k1k1k''"
      "''2024-05-04T09:00:00.000Z''" "''m2m2m2m''" "''2024-05-04T09:00:00.001Z''"
      "Val ''Lee''" "Val 7000"]
  obtain project st' qs rs where r:
    "convertLeadToProject ascii_lowering ''k1k1k1k'' ''2024-05-04T09:00:00.000Z'' ''m2m2m2m''
         ''2024-05-04T09:00:00.001Z'' ''l_d4d4d4d'' (Val ''Lee'') (Val 7000) converted_store
         = (st', Inr project)"
    "p_id project = ''p_'' @ ''m2m2m2m''"
    "projects st' = project # projects converted_store"
    "leads converted_store = qs @ ?lead # rs"
    "leads st' = qs @ ?lead\<lparr>l_status := ''converted'',
        l_convertedProjectId := Val (p_id project)\<rparr> # rs"
    by blast
  from r(4) have qs: "qs = []" "rs = []"
    by (simp_all add: leads_converted_store append_eq_Cons_conv Cons_eq_append_conv)
  have "leads st' \<noteq> leads converted_store"
    using r(5) r(2) qs by (simp add: leads_converted_store seeded_lead_def)
  with r(1) r(3) find_converted_lead show ?thesis by simp
qed

section \<open>Project creation\<close>

text \<open>
  Claim C8. For a payload without \<open>commissionPercent\<close>, the commission of the project that
  \<^verbatim>\<open>addProject\<close> creates is the \<open>defaultCommission\<close> of the defaults record as \<^verbatim>\<open>readObj\<close>
  reads it at the call, which is the stored record when one is stored. \<^verbatim>\<open>writeDefaults\<close>
  leaves the projects collection as it is; a project created after it has the new default
  commission, and the projects that existed before are behind the new one, unchanged.
\<close>

theorem addProject_default_commission:
  assumes "pl_commissionPercent payload = Undefined"
  shows "p_commissionPercent (snd (addProject r t customerId payload st)) =
           defaultCommission (readObj_defaults st) \<and>
         (\<forall>d. defaults st = Some d \<longrightarrow>
            p_commissionPercent (snd (addProject r t customerId payload st)) =
              defaultCommission d) \<and>
         projects (writeDefaults obj st) = projects st \<and>
         p_commissionPercent (snd (addProject r t customerId payload (writeDefaults obj st))) =
           defaultCommission obj \<and>
         projects (fst (addProject r t customerId payload (writeDefaults obj st))) =
           snd (addProject r t customerId payload (writeDefaults obj st)) # projects st"
  using assms
  by (simp add: addProject_def readObj_defaults_def writeDefaults_def write_projects_def
      nullish_def Let_def)

theorem addProject_default_commission_witness:
  "pl_commissionPercent bare_payload = Undefined \<and>
   defaults seeded_store = Some \<lparr>defaultCommission = 6\<rparr> \<and>
   p_commissionPercent (snd (addProject ''n3n3n3n'' ''2024-05-05T09:00:00.000Z'' ''u_c3c3c3c''
     bare_payload seeded_store)) = 6 \<and>
   p_commissionPercent (snd (addProject ''n3n3n3n'' ''2024-05-05T09:00:00.000Z'' ''u_c3c3c3c''
     bare_payload (writeDefaults \<lparr>defaultCommission = 9\<rparr> seeded_store))) = 9 \<and>
   projects (fst (addProject ''n3n3n3n'' ''2024-05-05T09:00:00.000Z'' ''u_c3c3c3c''
     bare_payload (writeDefaults \<lparr>defaultCommission = 9\<rparr> seeded_store))) =
     snd (addProject ''n3n3n3n'' ''2024-05-05T09:00:00.000Z'' ''u_c3c3c3c''
       bare_payload (writeDefaults \<lparr>defaultCommission = 9\<rparr> seeded_store)) # [seeded_project] \<and>
   p_commissionPercent seeded_project = 7"
proof -
  have a: "pl_commissionPercent bare_payload = Undefined" by (simp add: bare_payload_def)
  have d: "defaults seeded_store = Some \<lparr>defaultCommission = 6\<rparr>"
    by (simp add: seeded_store_def seedDemo_def init_store_def write_users_def write_leads_def
        write_projects_def Let_def)
  have s: "p_commissionPercent seeded_project = 7" by (simp add: seeded_project_def)
  from addProject_default_commission [OF a, of "''n3n3n3n''" "''2024-05-05T09:00:00.000Z''"
      "''u_c3c3c3c''" seeded_store "\<lparr>defaultCommission = 9\<rparr>"] a d s
  show ?thesis by (simp add: projects_seeded_store)
qed

text \<open>
  Claim C10. \<^verbatim>\<open>addProject\<close> takes a falsy \<open>location\<close>, \<open>plot\<close>, \<open>budget\<close>, \<open>materials\<close> or
  \<open>timeline\<close> of the payload (missing, \<^verbatim>\<open>null\<close>, the empty string, \<open>0\<close>) as missing and stores
  the default, and stores every other value as it is; \<open>commissionPercent\<close> is stored as it is
  whenever it is a number, \<open>0\<close> included, and only a missing or \<^verbatim>\<open>null\<close> one gives the
  default commission.
\<close>

theorem addProject_falsy_fields:
  "(pl_location payload \<in> {Undefined, Null, Val []} \<longrightarrow>
      p_location (snd (addProject r t customerId payload st)) = em_dash) \<and>
   (\<forall>s. pl_location payload = Val s \<and> s \<noteq> [] \<longrightarrow>
      p_location (snd (addProject r t customerId payload st)) = s) \<and>
   (pl_plot payload \<in> {Undefined, Null, Val 0} \<longrightarrow>
      p_plot (snd (addProject r t customerId payload st)) = 0) \<and>
   (\<forall>n. pl_plot payload = Val n \<and> n \<noteq> 0 \<longrightarrow>
      p_plot (snd (addProject r t customerId payload st)) = n) \<and>
   (pl_budget payload \<in> {Undefined, Null, Val 0} \<longrightarrow>
      p_budget (snd (addProject r t customerId payload st)) = 0) \<and>
   (\<forall>n. pl_budget payload = Val n \<and> n \<noteq> 0 \<longrightarrow>
      p_budget (snd (addProject r t customerId payload st)) = n) \<and>
   (pl_materials payload \<in> {Undefined, Null, Val []} \<longrightarrow>
      p_materials (snd (addProject r t customerId payload st)) = ''Standard'') \<and>
   (\<forall>s. pl_materials payload = Val s \<and> s \<noteq> [] \<longrightarrow>
      p_materials (snd (addProject r t customerId payload st)) = s) \<and>
   (pl_timeline payload \<in> {Undefined, Null, Val 0} \<longrightarrow>
      p_timeline (snd (addProject r t customerId payload st)) = 12) \<and>
   (\<forall>n. pl_timeline payload = Val n \<and> n \<noteq> 0 \<longrightarrow>
      p_timeline (snd (addProject r t customerId payload st)) = n) \<and>
   (\<forall>n. pl_commissionPercent payload = Val n \<longrightarrow>
      p_commissionPercent (snd (addProject r t customerId payload st)) = n) \<and>
   (pl_commissionPercent payload \<in> {Undefined, Null} \<longrightarrow>
      p_commissionPercent (snd (addProject r t customerId payload st)) =
        defaultCommission (readObj_defaults st))"
proof -
  have or_str_falsy: "v \<in> {Undefined, Null, Val []} \<longrightarrow> or_str v d = d" for v d
    by (simp add: or_str_def split: js.splits)
  have or_str_truthy: "\<forall>s. v = Val s \<and> s \<noteq> [] \<longrightarrow> or_str v d = s" for v d
    by (simp add: or_str_def)
  have or_num_falsy: "v \<in> {Undefined, Null, Val 0} \<longrightarrow> or_num v d = d" for v d
    by (simp add: or_num_def split: js.splits)
  have or_num_truthy: "\<forall>n. v = Val n \<and> n \<noteq> 0 \<longrightarrow> or_num v d = n" for v d
    by (simp add: or_num_def)
  have nullish_val: "\<forall>n. v = Val n \<longrightarrow> nullish v d = n" for v :: "rat js" and d
    by (simp add: nullish_def)
  have nullish_none: "v \<in> {Undefined, Null} \<longrightarrow> nullish v d = d" for v :: "rat js" and d
    by (simp add: nullish_def split: js.splits)
  have loc: "p_location (snd (addProject r t customerId payload st)) =
      or_str (pl_location payload) em_dash"
    and plot: "p_plot (snd (addProject r t customerId payload st)) = or_num (pl_plot payload) 0"
    and budget: "p_budget (snd (addProject r t customerId payload st)) =
      or_num (pl_budget payload) 0"
    and mat: "p_materials (snd (addProject r t customerId payload st)) =
      or_str (pl_materials payload) ''Standard''"
    and time: "p_timeline (snd (addProject r t customerId payload st)) =
      or_num (pl_timeline payload) 12"
    and com: "p_commissionPercent (snd (addProject r t customerId payload st)) =
      nullish (pl_commissionPercent payload) (defaultCommission (readObj_defaults st))"
    by (simp_all add: addProject_def Let_def)
  show ?thesis
    unfolding loc plot budget mat time com
    by (intro conjI or_str_falsy or_str_truthy or_num_falsy or_num_truthy nullish_val
        nullish_none)
qed

theorem addProject_falsy_fields_witness:
  "pl_location falsy_payload \<in> {Undefined, Null, Val []} \<and>
   pl_timeline falsy_payload \<in> {Undefined, Null, Val 0} \<and>
   pl_commissionPercent falsy_payload = Val 0 \<and>
   pl_budget bare_payload = Val 9000 \<and> (9000 :: rat) \<noteq> 0 \<and>
   pl_commissionPercent bare_payload \<in> {Undefined, Null} \<and>
   p_location (snd (addProject ''n3n3n3n'' ''2024-05-05T09:00:00.000Z'' ''u_c3c3c3c''
     falsy_payload seeded_store)) = em_dash \<and>
   p_timeline (snd (addProject ''n3n3n3n'' ''2024-05-05T09:00:00.000Z'' ''u_c3c3c3c''
     falsy_payload seeded_store)) = 12 \<and>
   p_commissionPercent (snd (addProject ''n3n3n3n'' ''2024-05-05T09:00:00.000Z'' ''u_c3c3c3c''
     falsy_payload seeded_store)) = 0 \<and>
   p_budget (snd (addProject ''n3n3n3n'' ''2024-05-05T09:00:00.000Z'' ''u_c3c3c3c''
     bare_payload seeded_store)) = 9000 \<and>
   p_commissionPercent (snd (addProject ''n3n3n3n'' ''2024-05-05T09:00:00.000Z'' ''u_c3c3c3c''
     bare_payload seeded_store)) = defaultCommission (readObj_defaults seeded_store)"
proof -
  have f: "pl_location falsy_payload \<in> {Undefined, Null, Val []}"
    "pl_timeline falsy_payload \<in> {Undefined, Null, Val 0}"
    "pl_commissionPercent falsy_payload = Val 0"
    by (simp_all add: falsy_payload_def)
  have b: "pl_budget bare_payload = Val 9000 \<and> (9000 :: rat) \<noteq> 0"
    "pl_commissionPercent bare_payload \<in> {Undefined, Null}"
    by (simp_all add: bare_payload_def)
  note w1 = addProject_falsy_fields [of falsy_payload "''n3n3n3n''" "''2024-05-05T09:00:00.000Z''"
      "''u_c3c3c3c''" seeded_store]
  note w2 = addProject_falsy_fields [of bare_payload "''n3n3n3n''" "''2024-05-05T09:00:00.000Z''"
      "''u_c3c3c3c''" seeded_store]
  have r1: "p_location (snd (addProject ''n3n3n3n'' ''2024-05-05T09:00:00.000Z'' ''u_c3c3c3c''
     falsy_payload seeded_store)) = em_dash"
    using w1 f(1) by blast
  have r2: "p_timeline (snd (addProject ''n3n3n3n'' ''2024-05-05T09:00:00.000Z'' ''u_c3c3c3c''
     falsy_payload seeded_store)) = 12"
    using w1 f(2) by blast
  have r3: "p_commissionPercent (snd (addProject ''n3n3n3n'' ''2024-05-05T09:00:00.000Z''
     ''u_c3c3c3c'' falsy_payload seeded_store)) = 0"
    using w1 f(3) by blast
  have r4: "p_budget (snd (addProject ''n3n3n3n'' ''2024-05-05T09:00:00.000Z'' ''u_c3c3c3c''
     bare_payload seeded_store)) = 9000"
    using w2 b(1) by blast
  have r5: "p_commissionPercent (snd (addProject ''n3n3n3n'' ''2024-05-05T09:00:00.000Z''
     ''u_c3c3c3c'' bare_payload seeded_store)) = defaultCommission (readObj_defaults seeded_store)"
    using w2 b(2) by blast
  from f b r1 r2 r3 r4 r5 show ?thesis by (intro conjI) simp_all
qed

section \<open>Reading the store\<close>

text \<open>
  Claim C9, as amended. \<^verbatim>\<open>read\<close> never raises, whatever \<^verbatim>\<open>JSON.parse\<close> and
  \<^verbatim>\<open>JSON.stringify\<close> do. When the stored text does not parse it returns the fallback. When
  no text (or the empty text) is stored it returns what \<^verbatim>\<open>JSON.parse\<close> reads from the text
  that \<^verbatim>\<open>JSON.stringify\<close> writes for the fallback, which need not be the fallback, and the
  fallback itself when either of the two throws.
\<close>

theorem read_never_raises:
  "(\<exists>v. read JSON_parse JSON_stringify localStorage k fallback = Inr v) \<and>
   (\<forall>s e. localStorage k = Some s \<and> s \<noteq> [] \<and> JSON_parse s = Inl e \<longrightarrow>
      read JSON_parse JSON_stringify localStorage k fallback = Inr fallback) \<and>
   (\<forall>e. (localStorage k = None \<or> localStorage k = Some []) \<and> JSON_stringify fallback = Inl e \<longrightarrow>
      read JSON_parse JSON_stringify localStorage k fallback = Inr fallback) \<and>
   (\<forall>x e. (localStorage k = None \<or> localStorage k = Some []) \<and>
       JSON_stringify fallback = Inr x \<and> JSON_parse (ToString x) = Inl e \<longrightarrow>
      read JSON_parse JSON_stringify localStorage k fallback = Inr fallback) \<and>
   (\<forall>x v. (localStorage k = None \<or> localStorage k = Some []) \<and>
       JSON_stringify fallback = Inr x \<and> JSON_parse (ToString x) = Inr v \<longrightarrow>
      read JSON_parse JSON_stringify localStorage k fallback = Inr v)"
proof -
  have total: "\<exists>v. read JSON_parse JSON_stringify localStorage k fallback = Inr v"
    by (simp add: read_def split: sum.splits)
  have corrupt: "\<forall>s e. localStorage k = Some s \<and> s \<noteq> [] \<and> JSON_parse s = Inl e \<longrightarrow>
      read JSON_parse JSON_stringify localStorage k fallback = Inr fallback"
    by (simp add: read_def read_try_def ToString_def)
  have absent: "localStorage k = None \<or> localStorage k = Some [] \<Longrightarrow>
      read_try JSON_parse JSON_stringify localStorage k fallback =
        (case JSON_stringify fallback of Inl e \<Rightarrow> Inl e | Inr x \<Rightarrow> JSON_parse (ToString x))"
    by (auto simp add: read_try_def)
  have no_text: "\<forall>e. (localStorage k = None \<or> localStorage k = Some []) \<and>
      JSON_stringify fallback = Inl e \<longrightarrow>
      read JSON_parse JSON_stringify localStorage k fallback = Inr fallback"
    by (simp add: read_def absent)
  have no_value: "\<forall>x e. (localStorage k = None \<or> localStorage k = Some []) \<and>
       JSON_stringify fallback = Inr x \<and> JSON_parse (ToString x) = Inl e \<longrightarrow>
      read JSON_parse JSON_stringify localStorage k fallback = Inr fallback"
    by (simp add: read_def absent)
  have round_trip: "\<forall>x v. (localStorage k = None \<or> localStorage k = Some []) \<and>
       JSON_stringify fallback = Inr x \<and> JSON_parse (ToString x) = Inr v \<longrightarrow>
      read JSON_parse JSON_stringify localStorage k fallback = Inr v"
    by (simp add: read_def absent)
  from total corrupt no_text no_value round_trip show ?thesis by (intro conjI)
qed

theorem read_never_raises_witness:
  "(corrupt_storage ''crc_users_v3'' = Some ''[{oops'' \<and> ''[{oops'' \<noteq> [] \<and>
    sample_parse ''[{oops'' = Inl SyntaxError \<and>
    read sample_parse sample_stringify corrupt_storage ''crc_users_v3'' Empty_array
      = Inr Empty_array) \<and>
   (corrupt_storage ''crc_leads_v3'' = None \<and>
    sample_stringify Empty_array = Inr (Val ''[]'') \<and>
    sample_parse (ToString (Val ''[]'')) = Inr Empty_array \<and>
    read sample_parse sample_stringify corrupt_storage ''crc_leads_v3'' Empty_array
      = Inr Empty_array)"
proof -
  have a: "corrupt_storage ''crc_users_v3'' = Some ''[{oops'' \<and> ''[{oops'' \<noteq> [] \<and>
    sample_parse ''[{oops'' = Inl SyntaxError"
    by (simp add: corrupt_storage_def sample_parse_def)
  have b: "corrupt_storage ''crc_leads_v3'' = None \<and>
    sample_stringify Empty_array = Inr (Val ''[]'') \<and>
    sample_parse (ToString (Val ''[]'')) = Inr Empty_array"
    by (simp add: corrupt_storage_def sample_parse_def sample_stringify_def ToString_def)
  have r1: "read sample_parse sample_stringify corrupt_storage ''crc_users_v3'' Empty_array
      = Inr Empty_array"
    using a read_never_raises [of sample_parse sample_stringify corrupt_storage
      "''crc_users_v3''" Empty_array]
    by blast
  have r2: "read sample_parse sample_stringify corrupt_storage ''crc_leads_v3'' Empty_array
      = Inr Empty_array"
    using b read_never_raises [of sample_parse sample_stringify corrupt_storage
      "''crc_leads_v3''" Empty_array]
    by blast
  from a b r1 r2 show ?thesis by (intro conjI) simp_all
qed

theorem read_absent_fallback_counterexample:
  "corrupt_storage ''crc_defaults_v3'' = None \<and>
   read sample_parse sample_stringify corrupt_storage ''crc_defaults_v3'' Object_a_undefined
     = Inr Empty_object \<and>
   Empty_object \<noteq> Object_a_undefined"
  by (simp add: corrupt_storage_def read_def read_try_def sample_parse_def sample_stringify_def
      ToString_def)

end
